theory Spec2Isabelle
  imports Complex_Main "HOL-Library.Stream"
begin

section \<open>JavaScript numbers\<close>

text \<open>
  The arrays that \<open>visualizeBracelet\<close> receives hold JavaScript numbers. A number is
  either finite, or \<open>NaN\<close>, or one of the two infinities. The finite payload is kept as a
  real; the code under study never computes with the payload of an array entry, it only
  classifies it with \<open>isNaN\<close> and \<open>isFinite\<close> and overwrites it.
\<close>

datatype number = Finite real | NaN | PosInfinity | NegInfinity

fun isNaN :: "number \<Rightarrow> bool" where
  "isNaN NaN = True"
| "isNaN (Finite x) = False"
| "isNaN PosInfinity = False"
| "isNaN NegInfinity = False"

fun isFinite :: "number \<Rightarrow> bool" where
  "isFinite (Finite x) = True"
| "isFinite NaN = False"
| "isFinite PosInfinity = False"
| "isFinite NegInfinity = False"

section \<open>The vertex check of \<open>visualizeBracelet\<close> (app.js, lines 330 to 362)\<close>

text \<open>
  The console lines of the vertex check. \<open>LogNaNFound i v\<close> and \<open>LogInfinityFound i v\<close>
  are the per-entry lines (index and value), \<open>ErrorInvalidValues n k\<close> is the
  \<open>console.error\<close> line carrying \<open>nanCount\<close> and \<open>infCount\<close>.
\<close>

datatype console_entry =
    LogNaNFound nat number
  | LogInfinityFound nat number
  | ErrorInvalidValues nat nat
  | LogCleaningData
  | LogInvalidValuesCleaned
  | LogAllVertexValuesValid

text \<open>
  The counting loop (lines 335 to 347): \<open>i\<close> runs over the indices of \<open>vertices\<close>;
  only the first five entries of each kind are logged.
\<close>

function count_loop ::
  "number list \<Rightarrow> nat \<Rightarrow> nat \<Rightarrow> nat \<Rightarrow> console_entry list \<Rightarrow> nat \<times> nat \<times> console_entry list"
where
  "count_loop vertices i nanCount infCount console =
     (if i < length vertices then
        (if isNaN (vertices ! i) then
           count_loop vertices (Suc i) (Suc nanCount) infCount
             (if Suc nanCount \<le> 5 then console @ [LogNaNFound i (vertices ! i)] else console)
         else if \<not> isFinite (vertices ! i) then
           count_loop vertices (Suc i) nanCount (Suc infCount)
             (if Suc infCount \<le> 5 then console @ [LogInfinityFound i (vertices ! i)] else console)
         else count_loop vertices (Suc i) nanCount infCount console)
      else (nanCount, infCount, console))"
  by pat_completeness auto
termination
  by (relation "measure (\<lambda>(vertices, i, nanCount, infCount, console). length vertices - i)") auto

text \<open>The repair loop (lines 354 to 358): the array is overwritten in place.\<close>

function clean_loop :: "number list \<Rightarrow> nat \<Rightarrow> number list" where
  "clean_loop vertices i =
     (if i < length vertices then
        clean_loop
          (if isNaN (vertices ! i) \<or> \<not> isFinite (vertices ! i)
           then vertices[i := Finite 0] else vertices)
          (Suc i)
      else vertices)"
  by pat_completeness auto
termination
  by (relation "measure (\<lambda>(vertices, i). length vertices - i)") auto

text \<open>
  The whole check: count, and repair only when something was counted. The result is the
  array after the check, the two counters, and the console lines written.
\<close>

definition check_vertices ::
  "number list \<Rightarrow> number list \<times> (nat \<times> nat) \<times> console_entry list"
where
  "check_vertices vertices =
     (case count_loop vertices 0 0 0 [] of
        (nanCount, infCount, console) \<Rightarrow>
          if nanCount > 0 \<or> infCount > 0 then
            (clean_loop vertices 0, (nanCount, infCount),
             console @ [ErrorInvalidValues nanCount infCount, LogCleaningData,
                        LogInvalidValuesCleaned])
          else (vertices, (nanCount, infCount), console @ [LogAllVertexValuesValid]))"

text \<open>
  Two names used in the statements of the lemmas below: an entry that is neither
  \<open>NaN\<close> nor finite, and the entry-wise effect of the repair.
\<close>

definition isInfinite :: "number \<Rightarrow> bool" where
  "isInfinite v \<longleftrightarrow> \<not> isNaN v \<and> \<not> isFinite v"

definition repair :: "number \<Rightarrow> number" where
  "repair v = (if isFinite v then v else Finite 0)"

section \<open>\<open>visualizeBracelet\<close> (app.js, lines 306 to 428)\<close>

text \<open>
  The \<open>model_data\<close> object of the response. Each field is an array of numbers, as in
  the data model of the mesh, or is missing; an array, even an empty one, is truthy in
  JavaScript, a missing field is not.
\<close>

record model_data =
  vertices :: "number list option"
  faces :: "number list option"
  normals :: "number list option"
  colors :: "number list option"

text \<open>
  A typed array is represented by the sequence handed to its constructor:
  \<open>Float32Array xs\<close> stands for \<open>new Float32Array(xs)\<close>. The conversion that the
  constructor applies to each entry (rounding to single precision, conversion to an
  unsigned 32-bit integer) is a function of that entry alone and is not modelled.
\<close>

datatype float32array = Float32Array "number list"

datatype uint32array = Uint32Array "number list"

datatype normal_attribute = NormalFromData float32array | ComputeVertexNormals

record geometry =
  position :: float32array
  index :: uint32array
  normal :: normal_attribute
  color :: "float32array option"

record material =
  vertexColors :: bool

record mesh =
  mesh_geometry :: geometry
  mesh_material :: material

text \<open>
  The fields of the application object that the operations below read or write.
  \<open>scene\<close> lists the bracelet meshes among the children of the three.js scene; the
  lights, the camera and the orbit controls are left out.
\<close>

record app =
  scene :: "mesh list"
  braceletMesh :: "mesh option"
  currentHeartbeatData :: "number list option"
  currentSTLFile :: "string option"

text \<open>
  An exception has a message. The text of a \<open>TypeError\<close> raised by the engine on
  reading a property of \<open>undefined\<close> is the engine's own; \<open>undefined_property\<close> gives
  the text of V8, with the name of the property between single quotes.
\<close>

datatype exn = Error string | TypeError string

fun message :: "exn \<Rightarrow> string" where
  "message (Error m) = m"
| "message (TypeError m) = m"

definition undefined_property :: "string \<Rightarrow> exn" where
  "undefined_property name =
     TypeError (''Cannot read properties of undefined (reading '' @ [CHR 0x27] @ name @
                [CHR 0x27] @ '')'')"

text \<open>
  \<open>visualizeBracelet\<close>. Line 309 reads \<open>braceletData.vertices\<close> before the validation of
  line 322, so a missing \<open>braceletData\<close> raises there. The arrays of \<open>braceletData\<close> are
  shared with the caller: the repair of \<open>vertices\<close> is visible in the returned
  \<open>model_data\<close>. Of the console lines only those of the vertex check are kept, and the
  placing of the camera (lines 411 to 427) is left out.
\<close>

definition visualizeBracelet ::
  "app \<Rightarrow> model_data option \<Rightarrow> exn + (app \<times> model_data \<times> console_entry list)"
where
  "visualizeBracelet this arg =
     (case arg of
        None \<Rightarrow> Inl (undefined_property ''vertices'')
      | Some braceletData \<Rightarrow>
          let this1 = (case braceletMesh this of
                         Some old \<Rightarrow> this\<lparr>scene := remove1 old (scene this)\<rparr>
                       | None \<Rightarrow> this)
          in (case vertices braceletData of
                None \<Rightarrow> Inr (this1, braceletData, [])
              | Some vertices0 \<Rightarrow>
                 (case faces braceletData of
                    None \<Rightarrow> Inr (this1, braceletData, [])
                  | Some faces0 \<Rightarrow>
                     (case check_vertices vertices0 of
                        (vertices1, counts, console) \<Rightarrow>
                          let braceletData1 = braceletData\<lparr>vertices := Some vertices1\<rparr>;
                              geometry =
                                \<lparr>position = Float32Array vertices1,
                                 index = Uint32Array faces0,
                                 normal = (case normals braceletData1 of
                                             Some ns \<Rightarrow> NormalFromData (Float32Array ns)
                                           | None \<Rightarrow> ComputeVertexNormals),
                                 color = (case colors braceletData1 of
                                            Some cs \<Rightarrow> Some (Float32Array cs)
                                          | None \<Rightarrow> None)\<rparr>;
                              material =
                                \<lparr>vertexColors = (case colors braceletData1 of
                                                   Some cs \<Rightarrow> True | None \<Rightarrow> False)\<rparr>;
                              new = \<lparr>mesh_geometry = geometry, mesh_material = material\<rparr>
                          in Inr (this1\<lparr>braceletMesh := Some new,
                                          scene := scene this1 @ [new]\<rparr>,
                                  braceletData1, console)))))"

section \<open>Requests and other events\<close>

text \<open>
  What the page does to the outside: the two requests with their JSON bodies (lines 254
  to 260 and 280 to 287), alerts, opened windows.
\<close>

record heartbeat_parameters =
  heart_rate :: int
  stress_level :: real
  activity_level :: real
  emotion :: string
  duration :: int

record bracelet_parameters =
  heartbeat_data_sent :: "number list"
  radius :: real
  thickness :: real
  height_variation :: real
  pattern_intensity :: real
  smoothness :: real

datatype body = HeartbeatBody heartbeat_parameters | BraceletBody bracelet_parameters

datatype event =
    Post string body
  | Alert string
  | WindowOpen string string

section \<open>The downloads (app.js, lines 430 to 441)\<close>

text \<open>A string is truthy when it is present and not empty.\<close>

fun truthy :: "string option \<Rightarrow> bool" where
  "truthy None = False"
| "truthy (Some s) = (s \<noteq> [])"

definition downloadSTL :: "app \<Rightarrow> event list" where
  "downloadSTL this =
     (if truthy (currentSTLFile this)
      then [WindowOpen (''/download_stl/'' @ the (currentSTLFile this)) ''_blank'']
      else [Alert ''Please generate a bracelet first!''])"

definition downloadOBJ :: "app \<Rightarrow> event list" where
  "downloadOBJ this = downloadSTL this"

section \<open>\<open>generateBracelet\<close> (app.js, lines 188 to 304)\<close>

text \<open>
  The values of the form controls, already parsed: \<open>parseInt\<close> of the heart rate and the
  duration, \<open>parseFloat\<close> of the other sliders, the selected emotion as it is.
\<close>

record form =
  heart_rate_value :: int
  stress_level_value :: real
  activity_level_value :: real
  emotion_value :: string
  duration_value :: int
  radius_value :: real
  thickness_value :: real
  height_variation_value :: real
  pattern_intensity_value :: real
  smoothness_value :: real

text \<open>The two response envelopes, as parsed from JSON; a missing field is \<open>None\<close>.\<close>

record envelope =
  success :: bool
  error :: "string option"

record heartbeat_response = envelope +
  heartbeat_data :: "number list option"

record bracelet_response = envelope +
  model_data :: "model_data option"
  stl_file :: "string option"

text \<open>
  The server is a parameter: what each endpoint answers to a request body. \<open>Inl\<close> is a
  rejected \<open>fetch\<close> or a body that is not JSON, with the exception the \<open>await\<close> raises.
\<close>

record server =
  generate_heartbeat :: "heartbeat_parameters \<Rightarrow> exn + heartbeat_response"
  generate_3d_bracelet :: "bracelet_parameters \<Rightarrow> exn + bracelet_response"

text \<open>
  The elements of the page that \<open>generateBracelet\<close> writes. The button labels are kept
  without their leading pictograph.
\<close>

datatype display = DisplayBlock | DisplayNone

record page =
  generateBtn_disabled :: bool
  generateBtn_textContent :: string
  loading_display :: display
  infoPanel_display :: display
  downloadSection_display :: display
  vertex_count_textContent :: real
  face_count_textContent :: real

definition generateHeartbeatData ::
  "server \<Rightarrow> form \<Rightarrow> (exn + heartbeat_response) \<times> event list"
where
  "generateHeartbeatData srv doc =
     (let parameters =
            \<lparr>heart_rate = heart_rate_value doc,
             stress_level = stress_level_value doc,
             activity_level = activity_level_value doc,
             emotion = emotion_value doc,
             duration = duration_value doc\<rparr>
      in (generate_heartbeat srv parameters,
          [Post ''/generate_heartbeat'' (HeartbeatBody parameters)]))"

definition generate3DBracelet ::
  "server \<Rightarrow> form \<Rightarrow> number list \<Rightarrow> (exn + bracelet_response) \<times> event list"
where
  "generate3DBracelet srv doc heartbeatData =
     (let parameters =
            \<lparr>heartbeat_data_sent = heartbeatData,
             radius = radius_value doc,
             thickness = thickness_value doc,
             height_variation = height_variation_value doc,
             pattern_intensity = pattern_intensity_value doc,
             smoothness = smoothness_value doc\<rparr>
      in (generate_3d_bracelet srv parameters,
          [Post ''/generate_3d_bracelet'' (BraceletBody parameters)]))"

text \<open>\<open>e || d\<close> on an optional string.\<close>

definition or_else :: "string option \<Rightarrow> string \<Rightarrow> string" where
  "or_else e d = (if truthy e then the e else d)"

text \<open>
  The body of the \<open>try\<close> block (lines 203 to 240). The result is the exception that left
  the block, if any, with the application object, the page and the events as they are at
  that point.
\<close>

definition generateBracelet_try ::
  "server \<Rightarrow> form \<Rightarrow> app \<Rightarrow> page \<Rightarrow> exn option \<times> app \<times> page \<times> event list"
where
  "generateBracelet_try srv doc this pg =
     (case generateHeartbeatData srv doc of
        (Inl e, ev1) \<Rightarrow> (Some e, this, pg, ev1)
      | (Inr heartbeatData, ev1) \<Rightarrow>
          if \<not> success heartbeatData then
            (Some (Error (or_else (error heartbeatData) ''Failed to generate heartbeat data'')),
             this, pg, ev1)
          else
            let this1 = this\<lparr>currentHeartbeatData := heartbeat_data heartbeatData\<rparr>
            in (case heartbeat_data heartbeatData of
                  None \<Rightarrow> (Some (undefined_property ''length''), this1, pg, ev1)
                | Some samples \<Rightarrow>
                   (case generate3DBracelet srv doc samples of
                      (Inl e, ev2) \<Rightarrow> (Some e, this1, pg, ev1 @ ev2)
                    | (Inr braceletData, ev2) \<Rightarrow>
                        if \<not> success braceletData then
                          (Some (Error (or_else (error braceletData)
                                          ''Failed to generate 3D bracelet'')),
                           this1, pg, ev1 @ ev2)
                        else
                          (case visualizeBracelet this1 (model_data braceletData) of
                             Inl e \<Rightarrow> (Some e, this1, pg, ev1 @ ev2)
                           | Inr (this2, modelData, console) \<Rightarrow>
                              (case vertices modelData of
                                 None \<Rightarrow>
                                   (Some (undefined_property ''length''), this2, pg, ev1 @ ev2)
                               | Some vs \<Rightarrow>
                                  let pg1 = pg\<lparr>vertex_count_textContent := real (length vs) / 3\<rparr>
                                  in (case faces modelData of
                                        None \<Rightarrow>
                                          (Some (undefined_property ''length''), this2, pg1,
                                           ev1 @ ev2)
                                      | Some fs \<Rightarrow>
                                          (None,
                                           this2\<lparr>currentSTLFile := stl_file braceletData\<rparr>,
                                           pg1\<lparr>face_count_textContent := real (length fs) / 3,
                                               infoPanel_display := DisplayBlock,
                                               downloadSection_display := DisplayBlock\<rparr>,
                                           ev1 @ ev2)))))))"

text \<open>
  \<open>generateBracelet\<close>: the page is put in its loading state, the \<open>try\<close> block runs, an
  exception is reported with \<open>alert\<close>, and the \<open>finally\<close> block restores the button.
\<close>

definition generateBracelet ::
  "server \<Rightarrow> form \<Rightarrow> app \<Rightarrow> page \<Rightarrow> app \<times> page \<times> event list"
where
  "generateBracelet srv doc this pg =
     (let pg0 = pg\<lparr>generateBtn_disabled := True,
                   generateBtn_textContent := ''Generating...'',
                   loading_display := DisplayBlock,
                   infoPanel_display := DisplayNone,
                   downloadSection_display := DisplayNone\<rparr>
      in (case generateBracelet_try srv doc this pg0 of
            (thrown, this1, pg1, events) \<Rightarrow>
              (this1,
               pg1\<lparr>generateBtn_disabled := False,
                   generateBtn_textContent := ''Generate 3D Bracelet'',
                   loading_display := DisplayNone\<rparr>,
               (case thrown of
                  Some e \<Rightarrow> events @ [Alert (''Error generating bracelet: '' @ message e)]
                | None \<Rightarrow> events))))"

section \<open>\<open>generateHeartbeatPreview\<close> (app.js, lines 131 to 186)\<close>

text \<open>
  The slider values are finite numbers, and the arithmetic of the preview is modelled
  over the reals: the rounding of double precision is not represented, so the model
  says which formula the code evaluates and on what it depends, not the last digit of
  the value. The operator \<open>%\<close>
  of JavaScript truncates the quotient towards zero, so its result has the sign of the
  dividend; \<open>remainder\<close> is that operator for a divisor other than zero.
\<close>

definition trunc :: "real \<Rightarrow> int" where
  "trunc x = (if 0 \<le> x then \<lfloor>x\<rfloor> else \<lceil>x\<rceil>)"

definition remainder :: "real \<Rightarrow> real \<Rightarrow> real" where
  "remainder n d = n - d * of_int (trunc (n / d))"

text \<open>Lines 158 to 171: the amplitude at time \<open>t\<close>, before the noise is added.\<close>

definition amplitude_before_noise :: "int \<Rightarrow> real \<Rightarrow> real \<Rightarrow> real" where
  "amplitude_before_noise heartRate activityLevel t =
     (let beatsPerSecond = of_int heartRate / 60;
          beatPhase = remainder (t * beatsPerSecond) 1
      in if beatPhase < 0.1 then
           (let qrsPhase = beatPhase / 0.1
            in sin (qrsPhase * pi) * (0.8 + activityLevel * 0.4))
         else if beatPhase > 0.3 \<and> beatPhase < 0.6 then
           (let tPhase = (beatPhase - 0.3) / 0.3
            in sin (tPhase * pi) * 0.3)
         else 0)"

text \<open>Line 174: \<open>random\<close> is the value that \<open>Math.random()\<close> returned.\<close>

definition amplitude_with_noise :: "int \<Rightarrow> real \<Rightarrow> real \<Rightarrow> real \<Rightarrow> real \<Rightarrow> real" where
  "amplitude_with_noise heartRate stressLevel activityLevel t random =
     amplitude_before_noise heartRate activityLevel t + (random - 0.5) * stressLevel * 0.2"

text \<open>
  \<open>Math.random\<close> is an explicit stream of the values it will return, each in \<open>[0, 1)\<close>;
  a call takes the head and leaves the tail.
\<close>

definition Math_random :: "real stream \<Rightarrow> real \<times> real stream" where
  "Math_random rng = (shd rng, stl rng)"

datatype path_command = MoveTo real real | LineTo real real

record canvas =
  width :: nat
  height :: nat

text \<open>
  The loop of lines 156 to 183, one sample for each pixel column; the path of the canvas
  context is the list of the commands issued.
\<close>

function preview_loop ::
  "canvas \<Rightarrow> int \<Rightarrow> real \<Rightarrow> real \<Rightarrow> nat \<Rightarrow> real stream \<Rightarrow> path_command list \<Rightarrow>
   path_command list \<times> real stream"
where
  "preview_loop cv heartRate stressLevel activityLevel i rng path =
     (if i < width cv then
        (let centerY = real (height cv) / 2;
             t = (real i / real (width cv)) * 3
         in case Math_random rng of
              (random, rng1) \<Rightarrow>
                let amplitude = amplitude_with_noise heartRate stressLevel activityLevel t random;
                    y = centerY - amplitude * (real (height cv) * 0.3)
                in preview_loop cv heartRate stressLevel activityLevel (Suc i) rng1
                     (path @ [if i = 0 then MoveTo (real i) y else LineTo (real i) y]))
      else (path, rng))"
  by pat_completeness auto
termination
  by (relation "measure (\<lambda>(cv, heartRate, stressLevel, activityLevel, i, rng, path). width cv - i)")
     (auto simp: Math_random_def)

definition generateHeartbeatPreview ::
  "canvas \<Rightarrow> form \<Rightarrow> real stream \<Rightarrow> path_command list \<times> real stream"
where
  "generateHeartbeatPreview cv doc rng =
     preview_loop cv (heart_rate_value doc) (stress_level_value doc) (activity_level_value doc)
       0 rng []"

section \<open>The waveform synthesizer of the specification\<close>

text \<open>
  Modelled from the spec: the handler of \<open>POST /generate_heartbeat\<close>, the
  WaveformSynthesizer of section 4.1, is not among the sources; only its caller
  \<open>generateHeartbeatData\<close> is. The definitions follow section 4.1: the parameters are
  rejected first, then one sample is produced for each of the \<open>duration * sample_rate\<close>
  sample times \<open>k / sample_rate\<close>, from the phase of the beat and one noise value each.
  The sample rate is a parameter.
\<close>

datatype failure = InvalidParameter | GenerationFailure

definition cardiac_cycle :: "real \<Rightarrow> real \<Rightarrow> real" where
  "cardiac_cycle beat_phase activity =
     (if beat_phase < 0.1 then sin (beat_phase / 0.1 * pi) * (0.8 + activity * 0.4)
      else if 0.3 < beat_phase \<and> beat_phase < 0.6 then sin ((beat_phase - 0.3) / 0.3 * pi) * 0.3
      else 0)"

definition synthesize_sample :: "nat \<Rightarrow> heartbeat_parameters \<Rightarrow> real stream \<Rightarrow> nat \<Rightarrow> real" where
  "synthesize_sample sample_rate p rng k =
     (let beats_per_second = of_int (heart_rate p) / 60;
          t = real k / real sample_rate;
          beat_phase = frac (t * beats_per_second)
      in cardiac_cycle beat_phase (activity_level p) + (rng !! k - 0.5) * stress_level p * 0.2)"

definition WaveformSynthesizer ::
  "nat \<Rightarrow> heartbeat_parameters \<Rightarrow> real stream \<Rightarrow> (failure + real list) \<times> real stream"
where
  "WaveformSynthesizer sample_rate p rng =
     (if heart_rate p \<le> 0 \<or> duration p \<le> 0 then (Inl InvalidParameter, rng)
      else
        (let n = nat (duration p) * sample_rate
         in (Inr (map (synthesize_sample sample_rate p rng) [0..<n]), sdrop n rng)))"

section \<open>Properties of the vertex check\<close>

declare count_loop.simps [simp del]
declare clean_loop.simps [simp del]

lemma isNaN_not_finite: "isNaN v \<Longrightarrow> \<not> isFinite v"
  by (cases v) simp_all

lemma isInfinite_simps:
  "isNaN v \<Longrightarrow> \<not> isInfinite v"
  "isFinite v \<Longrightarrow> \<not> isInfinite v"
  "\<not> isNaN v \<Longrightarrow> \<not> isFinite v \<Longrightarrow> isInfinite v"
  by (simp_all add: isInfinite_def)

lemma count_loop_counts:
  "fst (count_loop vs i n k c) = n + length (filter isNaN (drop i vs)) \<and>
   fst (snd (count_loop vs i n k c)) = k + length (filter isInfinite (drop i vs))"
proof (induction vs i n k c rule: count_loop.induct)
  case (1 vertices i nanCount infCount console)
  show ?case
  proof (cases "i < length vertices")
    case False
    then show ?thesis by (simp add: count_loop.simps)
  next
    case True
    then have d: "drop i vertices = vertices ! i # drop (Suc i) vertices"
      by (simp add: Cons_nth_drop_Suc)
    show ?thesis
    proof (cases "isNaN (vertices ! i)")
      case nan: True
      with True 1(1) d show ?thesis
        by (subst (1 2) count_loop.simps) (simp add: isInfinite_simps)
    next
      case nonan: False
      show ?thesis
      proof (cases "isFinite (vertices ! i)")
        case True
        with \<open>i < length vertices\<close> nonan 1(3) d show ?thesis
          by (subst (1 2) count_loop.simps) (simp add: isInfinite_simps)
      next
        case False
        with \<open>i < length vertices\<close> nonan 1(2) d show ?thesis
          by (subst (1 2) count_loop.simps) (simp add: isInfinite_simps)
      qed
    qed
  qed
qed

lemma clean_loop_eq: "clean_loop vs i = take i vs @ map repair (drop i vs)"
proof (induction vs i rule: clean_loop.induct)
  case (1 vertices i)
  show ?case
  proof (cases "i < length vertices")
    case False
    then show ?thesis by (simp add: clean_loop.simps)
  next
    case True
    then have d: "drop i vertices = vertices ! i # drop (Suc i) vertices"
      by (simp add: Cons_nth_drop_Suc)
    show ?thesis
    proof (cases "isFinite (vertices ! i)")
      case fin: True
      then have "\<not> isNaN (vertices ! i)" using isNaN_not_finite by blast
      with True fin 1 d show ?thesis
        by (subst clean_loop.simps) (simp add: repair_def take_Suc_conv_app_nth)
    next
      case nofin: False
      with True 1 d show ?thesis
        by (subst clean_loop.simps)
           (simp add: repair_def take_Suc_conv_app_nth upd_conv_take_nth_drop)
    qed
  qed
qed

lemma filter_not_finite_length:
  "length (filter (\<lambda>v. \<not> isFinite v) vs) =
   length (filter isNaN vs) + length (filter isInfinite vs)"
proof (induction vs)
  case Nil
  then show ?case by simp
next
  case (Cons v vs)
  then show ?case by (cases "isNaN v"; cases "isFinite v") (simp_all add: isInfinite_simps isNaN_not_finite)
qed

lemma map_repair_finite: "list_all isFinite vs \<Longrightarrow> map repair vs = vs"
  by (induction vs) (simp_all add: repair_def)

lemma list_all_finite_repair: "list_all isFinite (map repair vs)"
  by (induction vs) (simp_all add: repair_def)

lemma filter_empty_finite:
  "list_all isFinite vs \<longleftrightarrow> length (filter (\<lambda>v. \<not> isFinite v) vs) = 0"
  by (induction vs) simp_all

lemma check_vertices_array: "fst (check_vertices vs) = map repair vs"
proof -
  obtain n k c where cl: "count_loop vs 0 0 0 [] = (n, k, c)"
    by (cases "count_loop vs 0 0 0 []") auto
  from count_loop_counts [of vs 0 0 0 "[]"] cl
  have n: "n = length (filter isNaN vs)" and k: "k = length (filter isInfinite vs)"
    by simp_all
  show ?thesis
  proof (cases "n > 0 \<or> k > 0")
    case True
    with cl show ?thesis by (simp add: check_vertices_def clean_loop_eq)
  next
    case False
    with n k have "length (filter (\<lambda>v. \<not> isFinite v) vs) = 0"
      by (simp add: filter_not_finite_length)
    then have "map repair vs = vs"
      using filter_empty_finite map_repair_finite by blast
    with False cl show ?thesis by (simp add: check_vertices_def)
  qed
qed

lemma check_vertices_counts:
  "fst (snd (check_vertices vs)) =
   (length (filter isNaN vs), length (filter isInfinite vs))"
proof -
  obtain n k c where cl: "count_loop vs 0 0 0 [] = (n, k, c)"
    by (cases "count_loop vs 0 0 0 []") auto
  from count_loop_counts [of vs 0 0 0 "[]"] cl
  have "n = length (filter isNaN vs)" and "k = length (filter isInfinite vs)"
    by simp_all
  with cl show ?thesis by (simp add: check_vertices_def)
qed

lemma count_loop_console:
  "set (snd (snd (count_loop vs i n k c))) \<subseteq>
   set c \<union> {e. (\<exists>j v. e = LogNaNFound j v) \<or> (\<exists>j v. e = LogInfinityFound j v)}"
proof (induction vs i n k c rule: count_loop.induct)
  case (1 vertices i nanCount infCount console)
  show ?case
  proof (cases "i < length vertices")
    case False
    then show ?thesis by (simp add: count_loop.simps)
  next
    case True
    show ?thesis
    proof (cases "isNaN (vertices ! i)")
      case nan: True
      with True 1(1) show ?thesis
        by (subst count_loop.simps) (auto split: if_splits)
    next
      case nonan: False
      show ?thesis
      proof (cases "isFinite (vertices ! i)")
        case True
        with \<open>i < length vertices\<close> nonan 1(3) show ?thesis
          by (subst count_loop.simps) (auto split: if_splits)
      next
        case False
        with \<open>i < length vertices\<close> nonan 1(2) show ?thesis
          by (subst count_loop.simps) (auto split: if_splits)
      qed
    qed
  qed
qed

lemma count_loop_clean:
  "list_all isFinite (drop i vs) \<Longrightarrow> count_loop vs i n k c = (n, k, c)"
proof (induction vs i n k c rule: count_loop.induct)
  case (1 vertices i nanCount infCount console)
  show ?case
  proof (cases "i < length vertices")
    case False
    then show ?thesis by (simp add: count_loop.simps)
  next
    case True
    then have d: "drop i vertices = vertices ! i # drop (Suc i) vertices"
      by (simp add: Cons_nth_drop_Suc)
    with 1(4) have fin: "isFinite (vertices ! i)" and rest: "list_all isFinite (drop (Suc i) vertices)"
      by simp_all
    from fin have nonan: "\<not> isNaN (vertices ! i)" using isNaN_not_finite by blast
    from 1(3) [OF True nonan _ rest] fin True nonan show ?thesis
      by (subst count_loop.simps) simp
  qed
qed

text \<open>
  Claim C3. The vertex check is idempotent: an array whose entries are all finite comes
  back unchanged, and checking the result of a check a second time changes nothing.
\<close>

theorem check_vertices_idempotent:
  "(list_all isFinite vs \<longrightarrow> fst (check_vertices vs) = vs) \<and>
   fst (check_vertices (fst (check_vertices vs))) = fst (check_vertices vs)"
proof
  show "list_all isFinite vs \<longrightarrow> fst (check_vertices vs) = vs"
    by (simp add: check_vertices_array map_repair_finite)
  have "map repair (map repair vs) = map repair vs"
    using list_all_finite_repair map_repair_finite by blast
  then show "fst (check_vertices (fst (check_vertices vs))) = fst (check_vertices vs)"
    by (simp only: check_vertices_array)
qed

theorem check_vertices_idempotent_witness:
  "list_all isFinite [Finite 1, Finite (-2), Finite 0] \<and>
   fst (check_vertices [Finite 1, Finite (-2), Finite 0]) = [Finite 1, Finite (-2), Finite 0] \<and>
   fst (check_vertices (fst (check_vertices [NaN, Finite 3, NegInfinity]))) =
     fst (check_vertices [NaN, Finite 3, NegInfinity])"
  using check_vertices_idempotent [of "[Finite 1, Finite (-2), Finite 0]"]
        check_vertices_idempotent [of "[NaN, Finite 3, NegInfinity]"]
  by simp

text \<open>
  Claim C6. The counters of the vertex check are exact: \<open>nanCount\<close> is the number of
  \<open>NaN\<close> entries of the input, \<open>infCount\<close> the number of infinite ones, and their sum
  the number of entries that are not finite. When there is such an entry, the counters
  are written to the console in the \<open>console.error\<close> line, which is the only line of that
  kind; when the input is clean both counters are zero and the console says so.
\<close>

theorem check_vertices_report:
  assumes "check_vertices vs = (vs', (nanCount, infCount), console)"
  shows "nanCount = length (filter isNaN vs) \<and>
         infCount = length (filter (\<lambda>v. \<not> isNaN v \<and> \<not> isFinite v) vs) \<and>
         nanCount + infCount = length (filter (\<lambda>v. \<not> isFinite v) vs) \<and>
         (\<not> list_all isFinite vs \<longrightarrow> ErrorInvalidValues nanCount infCount \<in> set console) \<and>
         (\<forall>a b. ErrorInvalidValues a b \<in> set console \<longrightarrow> a = nanCount \<and> b = infCount) \<and>
         (list_all isFinite vs \<longrightarrow>
            nanCount = 0 \<and> infCount = 0 \<and> console = [LogAllVertexValuesValid])"
proof -
  obtain n k c where cl: "count_loop vs 0 0 0 [] = (n, k, c)"
    by (cases "count_loop vs 0 0 0 []") auto
  have inf: "filter isInfinite vs = filter (\<lambda>v. \<not> isNaN v \<and> \<not> isFinite v) vs"
    by (simp add: isInfinite_def [abs_def])
  from assms cl have nk: "n = nanCount" "k = infCount"
    by (simp_all add: check_vertices_def split: if_splits)
  have counts: "nanCount = length (filter isNaN vs)"
      "infCount = length (filter (\<lambda>v. \<not> isNaN v \<and> \<not> isFinite v) vs)"
    using check_vertices_counts [of vs] inf assms by simp_all
  have total: "nanCount + infCount = length (filter (\<lambda>v. \<not> isFinite v) vs)"
    using filter_not_finite_length [of vs] inf counts by simp
  have c: "set c \<subseteq> {e. (\<exists>j v. e = LogNaNFound j v) \<or> (\<exists>j v. e = LogInfinityFound j v)}"
    using count_loop_console [of vs 0 0 0 "[]"] cl by simp
  have dirty: "\<not> list_all isFinite vs \<longleftrightarrow> nanCount > 0 \<or> infCount > 0"
    using total filter_empty_finite [of vs] by auto
  have p3: "\<not> list_all isFinite vs \<longrightarrow> ErrorInvalidValues nanCount infCount \<in> set console"
    using dirty cl nk assms by (auto simp: check_vertices_def)
  have p4: "\<forall>a b. ErrorInvalidValues a b \<in> set console \<longrightarrow> a = nanCount \<and> b = infCount"
    using cl c nk assms by (auto simp: check_vertices_def split: if_splits)
  have p5: "list_all isFinite vs \<longrightarrow>
      nanCount = 0 \<and> infCount = 0 \<and> console = [LogAllVertexValuesValid]"
    using count_loop_clean [of 0 vs 0 0 "[]"] assms by (auto simp: check_vertices_def)
  from counts total p3 p4 p5 show ?thesis by simp
qed

theorem check_vertices_report_witness:
  "check_vertices [Finite 1, NaN, PosInfinity, NaN] =
     ([Finite 1, Finite 0, Finite 0, Finite 0], (2, 1),
      [LogNaNFound 1 NaN, LogInfinityFound 2 PosInfinity, LogNaNFound 3 NaN,
       ErrorInvalidValues 2 1, LogCleaningData, LogInvalidValuesCleaned]) \<and>
   \<not> list_all isFinite [Finite 1, NaN, PosInfinity, NaN] \<and>
   (2::nat) = length (filter isNaN [Finite 1, NaN, PosInfinity, NaN]) \<and>
   (2::nat) + 1 = length (filter (\<lambda>v. \<not> isFinite v) [Finite 1, NaN, PosInfinity, NaN])"
proof -
  have run: "check_vertices [Finite 1, NaN, PosInfinity, NaN] =
     ([Finite 1, Finite 0, Finite 0, Finite 0], (2, 1),
      [LogNaNFound 1 NaN, LogInfinityFound 2 PosInfinity, LogNaNFound 3 NaN,
       ErrorInvalidValues 2 1, LogCleaningData, LogInvalidValuesCleaned])"
    by (simp add: check_vertices_def count_loop.simps clean_loop.simps)
  from check_vertices_report [OF run] run show ?thesis by simp
qed

section \<open>Properties of \<open>visualizeBracelet\<close>\<close>

lemma visualizeBracelet_built:
  assumes "vertices md = Some vs" and "faces md = Some fs"
  shows "\<exists>this1 counts console.
           this1 = (case braceletMesh this of
                      Some old \<Rightarrow> this\<lparr>scene := remove1 old (scene this)\<rparr> | None \<Rightarrow> this) \<and>
           check_vertices vs = (map repair vs, counts, console) \<and>
           visualizeBracelet this (Some md) =
             Inr (this1\<lparr>braceletMesh :=
                          Some \<lparr>mesh_geometry =
                                  \<lparr>position = Float32Array (map repair vs),
                                   index = Uint32Array fs,
                                   normal = (case normals md of
                                               Some ns \<Rightarrow> NormalFromData (Float32Array ns)
                                             | None \<Rightarrow> ComputeVertexNormals),
                                   color = (case colors md of
                                              Some cs \<Rightarrow> Some (Float32Array cs)
                                            | None \<Rightarrow> None)\<rparr>,
                                mesh_material =
                                  \<lparr>vertexColors = (case colors md of
                                                     Some cs \<Rightarrow> True | None \<Rightarrow> False)\<rparr>\<rparr>,
                        scene := scene this1 @
                          [\<lparr>mesh_geometry =
                                  \<lparr>position = Float32Array (map repair vs),
                                   index = Uint32Array fs,
                                   normal = (case normals md of
                                               Some ns \<Rightarrow> NormalFromData (Float32Array ns)
                                             | None \<Rightarrow> ComputeVertexNormals),
                                   color = (case colors md of
                                              Some cs \<Rightarrow> Some (Float32Array cs)
                                            | None \<Rightarrow> None)\<rparr>,
                                mesh_material =
                                  \<lparr>vertexColors = (case colors md of
                                                     Some cs \<Rightarrow> True | None \<Rightarrow> False)\<rparr>\<rparr>]\<rparr>,
                  md\<lparr>vertices := Some (map repair vs)\<rparr>, console)"
proof -
  obtain v1 counts console where cv: "check_vertices vs = (v1, counts, console)"
    by (cases "check_vertices vs") auto
  with check_vertices_array [of vs] have v1: "v1 = map repair vs" by simp
  from assms cv v1 show ?thesis
    by (simp add: visualizeBracelet_def Let_def)
qed

text \<open>
  Claim C2, as amended. On a model with vertices and faces, \<open>visualizeBracelet\<close> scans
  every vertex coordinate, and only the vertex coordinates: each one that is not finite
  (\<open>NaN\<close> or infinite) is replaced with 0 and each finite one is kept, so that afterwards
  every vertex coordinate of the model is finite; the repaired array is the sequence
  handed to the constructor of the position attribute.
\<close>

theorem visualizeBracelet_repairs_vertices:
  assumes "visualizeBracelet this (Some md) = Inr (this', md', console)"
    and "vertices md = Some vs" and "faces md = Some fs"
  shows "vertices md' = Some (map (\<lambda>v. if isFinite v then v else Finite 0) vs) \<and>
         list_all isFinite (the (vertices md')) \<and>
         (\<exists>new. braceletMesh this' = Some new \<and>
                position (mesh_geometry new) =
                  Float32Array (map (\<lambda>v. if isFinite v then v else Finite 0) vs))"
proof -
  have r: "map repair vs = map (\<lambda>v. if isFinite v then v else Finite 0) vs"
    by (simp add: repair_def)
  from visualizeBracelet_built [OF assms(2,3), of this] assms(1)
  have "vertices md' = Some (map repair vs)"
    and "\<exists>new. braceletMesh this' = Some new \<and>
                position (mesh_geometry new) = Float32Array (map repair vs)"
    by auto
  moreover have "list_all isFinite (map repair vs)" by (rule list_all_finite_repair)
  ultimately show ?thesis using r by simp
qed

text \<open>
  Claim C10. The repair touches the vertices only: after \<open>visualizeBracelet\<close> the faces,
  normals and colors of the model are the sequences received, and the index, normal and
  color attributes of the geometry are built from exactly those sequences, whatever
  values they hold.
\<close>

theorem visualizeBracelet_frame:
  assumes "visualizeBracelet this (Some md) = Inr (this', md', console)"
  shows "faces md' = faces md \<and> normals md' = normals md \<and> colors md' = colors md \<and>
         (\<forall>vs fs. vertices md = Some vs \<and> faces md = Some fs \<longrightarrow>
            (\<exists>new. braceletMesh this' = Some new \<and>
               index (mesh_geometry new) = Uint32Array fs \<and>
               normal (mesh_geometry new) =
                 (case normals md of
                    Some ns \<Rightarrow> NormalFromData (Float32Array ns)
                  | None \<Rightarrow> ComputeVertexNormals) \<and>
               color (mesh_geometry new) =
                 (case colors md of Some cs \<Rightarrow> Some (Float32Array cs) | None \<Rightarrow> None)))"
proof (cases "vertices md")
  case None
  with assms show ?thesis by (auto simp: visualizeBracelet_def Let_def)
next
  case (Some vs)
  show ?thesis
  proof (cases "faces md")
    case None
    with Some assms show ?thesis by (auto simp: visualizeBracelet_def Let_def)
  next
    case (Some fs)
    from visualizeBracelet_built [OF \<open>vertices md = Some vs\<close> Some, of this] assms
    show ?thesis using Some \<open>vertices md = Some vs\<close> by auto
  qed
qed

text \<open>
  Claim C2 as stated fails: normals and colors are not scanned. In the run below the
  infinite vertex coordinate is repaired, while the infinite normal and the infinite
  color stay in the model and reach the geometry.
\<close>

theorem visualizeBracelet_normals_counterexample:
  "visualizeBracelet
      \<lparr>scene = [], braceletMesh = None, currentHeartbeatData = None, currentSTLFile = None\<rparr>
      (Some \<lparr>vertices = Some [Finite 1, PosInfinity, Finite 3],
             faces = Some [Finite 0, Finite 0, Finite 0],
             normals = Some [Finite 0, PosInfinity, Finite 1],
             colors = Some [NegInfinity, Finite 1, Finite 1]\<rparr>) =
    Inr (\<lparr>scene =
            [\<lparr>mesh_geometry =
                 \<lparr>position = Float32Array [Finite 1, Finite 0, Finite 3],
                  index = Uint32Array [Finite 0, Finite 0, Finite 0],
                  normal = NormalFromData (Float32Array [Finite 0, PosInfinity, Finite 1]),
                  color = Some (Float32Array [NegInfinity, Finite 1, Finite 1])\<rparr>,
               mesh_material = \<lparr>vertexColors = True\<rparr>\<rparr>],
          braceletMesh =
            Some \<lparr>mesh_geometry =
                    \<lparr>position = Float32Array [Finite 1, Finite 0, Finite 3],
                     index = Uint32Array [Finite 0, Finite 0, Finite 0],
                     normal = NormalFromData (Float32Array [Finite 0, PosInfinity, Finite 1]),
                     color = Some (Float32Array [NegInfinity, Finite 1, Finite 1])\<rparr>,
                  mesh_material = \<lparr>vertexColors = True\<rparr>\<rparr>,
          currentHeartbeatData = None, currentSTLFile = None\<rparr>,
         \<lparr>vertices = Some [Finite 1, Finite 0, Finite 3],
          faces = Some [Finite 0, Finite 0, Finite 0],
          normals = Some [Finite 0, PosInfinity, Finite 1],
          colors = Some [NegInfinity, Finite 1, Finite 1]\<rparr>,
         [LogInfinityFound 1 PosInfinity, ErrorInvalidValues 0 1, LogCleaningData,
          LogInvalidValuesCleaned]) \<and>
   \<not> list_all isFinite [Finite 0, PosInfinity, Finite 1] \<and>
   \<not> list_all isFinite [NegInfinity, Finite 1, Finite 1]"
  by (simp add: visualizeBracelet_def Let_def check_vertices_def count_loop.simps
        clean_loop.simps)

theorem visualizeBracelet_repairs_vertices_witness:
  "visualizeBracelet
      \<lparr>scene = [], braceletMesh = None, currentHeartbeatData = None, currentSTLFile = None\<rparr>
      (Some \<lparr>vertices = Some [NaN, Finite 2, NegInfinity], faces = Some [],
             normals = None, colors = None\<rparr>) =
    Inr (\<lparr>scene =
            [\<lparr>mesh_geometry =
                 \<lparr>position = Float32Array [Finite 0, Finite 2, Finite 0],
                  index = Uint32Array [], normal = ComputeVertexNormals, color = None\<rparr>,
               mesh_material = \<lparr>vertexColors = False\<rparr>\<rparr>],
          braceletMesh =
            Some \<lparr>mesh_geometry =
                    \<lparr>position = Float32Array [Finite 0, Finite 2, Finite 0],
                     index = Uint32Array [], normal = ComputeVertexNormals, color = None\<rparr>,
                  mesh_material = \<lparr>vertexColors = False\<rparr>\<rparr>,
          currentHeartbeatData = None, currentSTLFile = None\<rparr>,
         \<lparr>vertices = Some [Finite 0, Finite 2, Finite 0], faces = Some [],
          normals = None, colors = None\<rparr>,
         [LogNaNFound 0 NaN, LogInfinityFound 2 NegInfinity, ErrorInvalidValues 1 1,
          LogCleaningData, LogInvalidValuesCleaned]) \<and>
   map (\<lambda>v. if isFinite v then v else Finite 0) [NaN, Finite 2, NegInfinity] =
     [Finite 0, Finite 2, Finite 0] \<and>
   list_all isFinite [Finite 0, Finite 2, Finite 0]"
proof -
  have run: "visualizeBracelet
      \<lparr>scene = [], braceletMesh = None, currentHeartbeatData = None, currentSTLFile = None\<rparr>
      (Some \<lparr>vertices = Some [NaN, Finite 2, NegInfinity], faces = Some [],
             normals = None, colors = None\<rparr>) =
    Inr (\<lparr>scene =
            [\<lparr>mesh_geometry =
                 \<lparr>position = Float32Array [Finite 0, Finite 2, Finite 0],
                  index = Uint32Array [], normal = ComputeVertexNormals, color = None\<rparr>,
               mesh_material = \<lparr>vertexColors = False\<rparr>\<rparr>],
          braceletMesh =
            Some \<lparr>mesh_geometry =
                    \<lparr>position = Float32Array [Finite 0, Finite 2, Finite 0],
                     index = Uint32Array [], normal = ComputeVertexNormals, color = None\<rparr>,
                  mesh_material = \<lparr>vertexColors = False\<rparr>\<rparr>,
          currentHeartbeatData = None, currentSTLFile = None\<rparr>,
         \<lparr>vertices = Some [Finite 0, Finite 2, Finite 0], faces = Some [],
          normals = None, colors = None\<rparr>,
         [LogNaNFound 0 NaN, LogInfinityFound 2 NegInfinity, ErrorInvalidValues 1 1,
          LogCleaningData, LogInvalidValuesCleaned])"
    by (simp add: visualizeBracelet_def Let_def check_vertices_def count_loop.simps
          clean_loop.simps)
  from visualizeBracelet_repairs_vertices [OF run, of "[NaN, Finite 2, NegInfinity]" "[]"] run
  show ?thesis by simp
qed

theorem visualizeBracelet_frame_witness:
  "visualizeBracelet
      \<lparr>scene = [], braceletMesh = None, currentHeartbeatData = None, currentSTLFile = None\<rparr>
      (Some \<lparr>vertices = Some [Finite 5], faces = Some [PosInfinity],
             normals = Some [NegInfinity], colors = Some [PosInfinity]\<rparr>) =
    Inr (\<lparr>scene =
            [\<lparr>mesh_geometry =
                 \<lparr>position = Float32Array [Finite 5], index = Uint32Array [PosInfinity],
                  normal = NormalFromData (Float32Array [NegInfinity]),
                  color = Some (Float32Array [PosInfinity])\<rparr>,
               mesh_material = \<lparr>vertexColors = True\<rparr>\<rparr>],
          braceletMesh =
            Some \<lparr>mesh_geometry =
                    \<lparr>position = Float32Array [Finite 5], index = Uint32Array [PosInfinity],
                     normal = NormalFromData (Float32Array [NegInfinity]),
                     color = Some (Float32Array [PosInfinity])\<rparr>,
                  mesh_material = \<lparr>vertexColors = True\<rparr>\<rparr>,
          currentHeartbeatData = None, currentSTLFile = None\<rparr>,
         \<lparr>vertices = Some [Finite 5], faces = Some [PosInfinity],
          normals = Some [NegInfinity], colors = Some [PosInfinity]\<rparr>,
         [LogAllVertexValuesValid])"
proof -
  have run: "visualizeBracelet
      \<lparr>scene = [], braceletMesh = None, currentHeartbeatData = None, currentSTLFile = None\<rparr>
      (Some \<lparr>vertices = Some [Finite 5], faces = Some [PosInfinity],
             normals = Some [NegInfinity], colors = Some [PosInfinity]\<rparr>) =
    Inr (\<lparr>scene =
            [\<lparr>mesh_geometry =
                 \<lparr>position = Float32Array [Finite 5], index = Uint32Array [PosInfinity],
                  normal = NormalFromData (Float32Array [NegInfinity]),
                  color = Some (Float32Array [PosInfinity])\<rparr>,
               mesh_material = \<lparr>vertexColors = True\<rparr>\<rparr>],
          braceletMesh =
            Some \<lparr>mesh_geometry =
                    \<lparr>position = Float32Array [Finite 5], index = Uint32Array [PosInfinity],
                     normal = NormalFromData (Float32Array [NegInfinity]),
                     color = Some (Float32Array [PosInfinity])\<rparr>,
                  mesh_material = \<lparr>vertexColors = True\<rparr>\<rparr>,
          currentHeartbeatData = None, currentSTLFile = None\<rparr>,
         \<lparr>vertices = Some [Finite 5], faces = Some [PosInfinity],
          normals = Some [NegInfinity], colors = Some [PosInfinity]\<rparr>,
         [LogAllVertexValuesValid])"
    by (simp add: visualizeBracelet_def Let_def check_vertices_def count_loop.simps
          clean_loop.simps)
  from visualizeBracelet_frame [OF run] run show ?thesis by simp
qed

section \<open>Properties of the downloads\<close>

text \<open>
  Claim C9. \<open>downloadOBJ\<close> does exactly what \<open>downloadSTL\<close> does in every state of the
  application: it opens the STL download of the current file, or asks for a bracelet to
  be generated first.
\<close>

theorem downloadOBJ_downloads_STL:
  "downloadOBJ this = downloadSTL this \<and>
   downloadOBJ this =
     (if truthy (currentSTLFile this)
      then [WindowOpen (''/download_stl/'' @ the (currentSTLFile this)) ''_blank'']
      else [Alert ''Please generate a bracelet first!''])"
  by (simp add: downloadOBJ_def downloadSTL_def)

theorem downloadOBJ_downloads_STL_witness:
  "downloadOBJ \<lparr>scene = [], braceletMesh = None, currentHeartbeatData = None,
                currentSTLFile = Some ''bracelet_1.stl''\<rparr> =
     [WindowOpen ''/download_stl/bracelet_1.stl'' ''_blank'']"
  using downloadOBJ_downloads_STL
          [of "\<lparr>scene = [], braceletMesh = None, currentHeartbeatData = None,
                currentSTLFile = Some ''bracelet_1.stl''\<rparr>"]
  by auto

section \<open>Properties of \<open>generateBracelet\<close>\<close>

lemma try_first:
  "\<exists>rest. snd (snd (snd (generateBracelet_try srv doc this pg))) =
     Post ''/generate_heartbeat'' (HeartbeatBody \<lparr>heart_rate = heart_rate_value doc,
             stress_level = stress_level_value doc,
             activity_level = activity_level_value doc,
             emotion = emotion_value doc,
             duration = duration_value doc\<rparr>) # rest \<and>
     (rest = [] \<or>
      (\<exists>r samples. generate_heartbeat srv \<lparr>heart_rate = heart_rate_value doc,
             stress_level = stress_level_value doc,
             activity_level = activity_level_value doc,
             emotion = emotion_value doc,
             duration = duration_value doc\<rparr> = Inr r \<and> success r \<and>
         heartbeat_data r = Some samples \<and>
         rest = [Post ''/generate_3d_bracelet''
                   (BraceletBody \<lparr>heartbeat_data_sent = samples,
             radius = radius_value doc,
             thickness = thickness_value doc,
             height_variation = height_variation_value doc,
             pattern_intensity = pattern_intensity_value doc,
             smoothness = smoothness_value doc\<rparr>)]))"
  by (auto simp: generateBracelet_try_def generateHeartbeatData_def generate3DBracelet_def
       Let_def split: sum.splits option.splits prod.splits)


lemma generateBracelet_events:
  "snd (snd (generateBracelet srv doc this pg)) =
     snd (snd (snd (generateBracelet_try srv doc this (pg\<lparr>generateBtn_disabled := True,
                   generateBtn_textContent := ''Generating...'',
                   loading_display := DisplayBlock,
                   infoPanel_display := DisplayNone,
                   downloadSection_display := DisplayNone\<rparr>)))) @
     (case fst (generateBracelet_try srv doc this (pg\<lparr>generateBtn_disabled := True,
                   generateBtn_textContent := ''Generating...'',
                   loading_display := DisplayBlock,
                   infoPanel_display := DisplayNone,
                   downloadSection_display := DisplayNone\<rparr>)) of
        Some e \<Rightarrow> [Alert (''Error generating bracelet: '' @ message e)] | None \<Rightarrow> [])"
  by (simp add: generateBracelet_def Let_def split: prod.splits option.splits)

lemma visualizeBracelet_keeps:
  assumes "visualizeBracelet this arg = Inr (this', md', console)"
  shows "currentHeartbeatData this' = currentHeartbeatData this \<and>
         currentSTLFile this' = currentSTLFile this"
  using assms
  by (auto simp: visualizeBracelet_def Let_def
        split: option.splits prod.splits)

lemma generateBracelet_mesh_request:
  assumes "generate_heartbeat srv
             \<lparr>heart_rate = heart_rate_value doc,
              stress_level = stress_level_value doc,
              activity_level = activity_level_value doc,
              emotion = emotion_value doc,
              duration = duration_value doc\<rparr> = Inr r"
    and "success r" and "heartbeat_data r = Some samples"
  shows "\<exists>rest. snd (snd (generateBracelet srv doc this pg)) =
           Post ''/generate_heartbeat''
             (HeartbeatBody \<lparr>heart_rate = heart_rate_value doc,
                              stress_level = stress_level_value doc,
                              activity_level = activity_level_value doc,
                              emotion = emotion_value doc,
                              duration = duration_value doc\<rparr>) #
           Post ''/generate_3d_bracelet''
             (BraceletBody \<lparr>heartbeat_data_sent = samples,
                             radius = radius_value doc,
                             thickness = thickness_value doc,
                             height_variation = height_variation_value doc,
                             pattern_intensity = pattern_intensity_value doc,
                             smoothness = smoothness_value doc\<rparr>) # rest \<and>
           (\<forall>url b. Post url b \<notin> set rest) \<and>
           currentHeartbeatData (fst (generateBracelet srv doc this pg)) = Some samples"
proof -
  let ?pg0 = "pg\<lparr>generateBtn_disabled := True,
                   generateBtn_textContent := ''Generating...'',
                   loading_display := DisplayBlock,
                   infoPanel_display := DisplayNone,
                   downloadSection_display := DisplayNone\<rparr>"
  let ?this1 = "this\<lparr>currentHeartbeatData := Some samples\<rparr>"
  let ?hb = "Post ''/generate_heartbeat''
             (HeartbeatBody \<lparr>heart_rate = heart_rate_value doc,
                              stress_level = stress_level_value doc,
                              activity_level = activity_level_value doc,
                              emotion = emotion_value doc,
                              duration = duration_value doc\<rparr>)"
  let ?mesh = "Post ''/generate_3d_bracelet''
             (BraceletBody \<lparr>heartbeat_data_sent = samples,
                             radius = radius_value doc,
                             thickness = thickness_value doc,
                             height_variation = height_variation_value doc,
                             pattern_intensity = pattern_intensity_value doc,
                             smoothness = smoothness_value doc\<rparr>)"
  have run: "\<exists>thrown this2 pg2.
      generateBracelet_try srv doc this ?pg0 = (thrown, this2, pg2, [?hb, ?mesh]) \<and>
      currentHeartbeatData this2 = Some samples"
    using assms
    by (auto simp: generateBracelet_try_def generateHeartbeatData_def generate3DBracelet_def
          Let_def dest: visualizeBracelet_keeps split: sum.splits option.splits prod.splits)
  then obtain thrown this2 pg2 where
    t: "generateBracelet_try srv doc this ?pg0 = (thrown, this2, pg2, [?hb, ?mesh])"
    and h: "currentHeartbeatData this2 = Some samples"
    by blast
  show ?thesis
  proof (cases thrown)
    case None
    with t h show ?thesis by (simp add: generateBracelet_def Let_def)
  next
    case (Some e)
    with t h show ?thesis by (simp add: generateBracelet_def Let_def)
  qed
qed

lemma generateBracelet_first_trip:
  "(\<exists>rest. snd (snd (generateBracelet srv doc this pg)) =
        Post ''/generate_heartbeat''
          (HeartbeatBody \<lparr>heart_rate = heart_rate_value doc,
                           stress_level = stress_level_value doc,
                           activity_level = activity_level_value doc,
                           emotion = emotion_value doc,
                           duration = duration_value doc\<rparr>) # rest \<and>
        (\<forall>url b. Post url b \<in> set rest \<longrightarrow>
           url = ''/generate_3d_bracelet'' \<and>
           (\<exists>r. generate_heartbeat srv
                   \<lparr>heart_rate = heart_rate_value doc,
                    stress_level = stress_level_value doc,
                    activity_level = activity_level_value doc,
                    emotion = emotion_value doc,
                    duration = duration_value doc\<rparr> = Inr r \<and> success r))) \<and>
   (\<forall>r. generate_heartbeat srv
           \<lparr>heart_rate = heart_rate_value doc,
            stress_level = stress_level_value doc,
            activity_level = activity_level_value doc,
            emotion = emotion_value doc,
            duration = duration_value doc\<rparr> = Inr r \<and> \<not> success r \<longrightarrow>
      generateBracelet srv doc this pg =
        (this,
         pg\<lparr>generateBtn_disabled := False,
            generateBtn_textContent := ''Generate 3D Bracelet'',
            loading_display := DisplayNone,
            infoPanel_display := DisplayNone,
            downloadSection_display := DisplayNone\<rparr>,
         [Post ''/generate_heartbeat''
            (HeartbeatBody \<lparr>heart_rate = heart_rate_value doc,
                             stress_level = stress_level_value doc,
                             activity_level = activity_level_value doc,
                             emotion = emotion_value doc,
                             duration = duration_value doc\<rparr>),
          Alert (''Error generating bracelet: '' @
                 (if truthy (error r) then the (error r)
                  else ''Failed to generate heartbeat data''))]))"
proof (intro conjI allI impI)
  let ?pg0 = "pg\<lparr>generateBtn_disabled := True,
                   generateBtn_textContent := ''Generating...'',
                   loading_display := DisplayBlock,
                   infoPanel_display := DisplayNone,
                   downloadSection_display := DisplayNone\<rparr>"
  from try_first [of srv doc this ?pg0]
  obtain rest where rest: "snd (snd (snd (generateBracelet_try srv doc this ?pg0))) =
     Post ''/generate_heartbeat'' (HeartbeatBody \<lparr>heart_rate = heart_rate_value doc,
             stress_level = stress_level_value doc,
             activity_level = activity_level_value doc,
             emotion = emotion_value doc,
             duration = duration_value doc\<rparr>) # rest"
    and cases: "rest = [] \<or>
      (\<exists>r samples. generate_heartbeat srv \<lparr>heart_rate = heart_rate_value doc,
             stress_level = stress_level_value doc,
             activity_level = activity_level_value doc,
             emotion = emotion_value doc,
             duration = duration_value doc\<rparr> = Inr r \<and> success r \<and>
         heartbeat_data r = Some samples \<and>
         rest = [Post ''/generate_3d_bracelet''
                   (BraceletBody \<lparr>heartbeat_data_sent = samples,
             radius = radius_value doc,
             thickness = thickness_value doc,
             height_variation = height_variation_value doc,
             pattern_intensity = pattern_intensity_value doc,
             smoothness = smoothness_value doc\<rparr>)])"
    by blast
  let ?tail = "rest @ (case fst (generateBracelet_try srv doc this ?pg0) of
        Some e \<Rightarrow> [Alert (''Error generating bracelet: '' @ message e)] | None \<Rightarrow> [])"
  have "snd (snd (generateBracelet srv doc this pg)) =
        Post ''/generate_heartbeat'' (HeartbeatBody \<lparr>heart_rate = heart_rate_value doc,
             stress_level = stress_level_value doc,
             activity_level = activity_level_value doc,
             emotion = emotion_value doc,
             duration = duration_value doc\<rparr>) # ?tail"
    by (simp add: generateBracelet_events rest)
  moreover have "\<forall>url b. Post url b \<in> set ?tail \<longrightarrow>
           url = ''/generate_3d_bracelet'' \<and>
           (\<exists>r. generate_heartbeat srv \<lparr>heart_rate = heart_rate_value doc,
             stress_level = stress_level_value doc,
             activity_level = activity_level_value doc,
             emotion = emotion_value doc,
             duration = duration_value doc\<rparr> = Inr r \<and> success r)"
    using cases by (auto split: option.splits)
  ultimately show "\<exists>rest. snd (snd (generateBracelet srv doc this pg)) =
        Post ''/generate_heartbeat''
          (HeartbeatBody \<lparr>heart_rate = heart_rate_value doc,
                           stress_level = stress_level_value doc,
                           activity_level = activity_level_value doc,
                           emotion = emotion_value doc,
                           duration = duration_value doc\<rparr>) # rest \<and>
        (\<forall>url b. Post url b \<in> set rest \<longrightarrow>
           url = ''/generate_3d_bracelet'' \<and>
           (\<exists>r. generate_heartbeat srv
                   \<lparr>heart_rate = heart_rate_value doc,
                    stress_level = stress_level_value doc,
                    activity_level = activity_level_value doc,
                    emotion = emotion_value doc,
                    duration = duration_value doc\<rparr> = Inr r \<and> success r))"
    by blast
next
  fix r
  assume "generate_heartbeat srv
           \<lparr>heart_rate = heart_rate_value doc,
            stress_level = stress_level_value doc,
            activity_level = activity_level_value doc,
            emotion = emotion_value doc,
            duration = duration_value doc\<rparr> = Inr r \<and> \<not> success r"
  then show "generateBracelet srv doc this pg =
        (this,
         pg\<lparr>generateBtn_disabled := False,
            generateBtn_textContent := ''Generate 3D Bracelet'',
            loading_display := DisplayNone,
            infoPanel_display := DisplayNone,
            downloadSection_display := DisplayNone\<rparr>,
         [Post ''/generate_heartbeat''
            (HeartbeatBody \<lparr>heart_rate = heart_rate_value doc,
                             stress_level = stress_level_value doc,
                             activity_level = activity_level_value doc,
                             emotion = emotion_value doc,
                             duration = duration_value doc\<rparr>),
          Alert (''Error generating bracelet: '' @
                 (if truthy (error r) then the (error r)
                  else ''Failed to generate heartbeat data''))])"
    by (simp add: generateBracelet_def generateBracelet_try_def generateHeartbeatData_def
          or_else_def Let_def)
qed


lemma generateBracelet_success:
  "(\<forall>r samples b this2 md console vs fs.
      generate_heartbeat srv
           \<lparr>heart_rate = heart_rate_value doc,
             stress_level = stress_level_value doc,
             activity_level = activity_level_value doc,
             emotion = emotion_value doc,
             duration = duration_value doc\<rparr> = Inr r \<and> success r \<and> heartbeat_data r = Some samples \<and>
      generate_3d_bracelet srv
           \<lparr>heartbeat_data_sent = samples,
             radius = radius_value doc,
             thickness = thickness_value doc,
             height_variation = height_variation_value doc,
             pattern_intensity = pattern_intensity_value doc,
             smoothness = smoothness_value doc\<rparr> = Inr b \<and> success b \<and>
      visualizeBracelet (this\<lparr>currentHeartbeatData := Some samples\<rparr>) (model_data b) =
        Inr (this2, md, console) \<and>
      vertices md = Some vs \<and> faces md = Some fs \<longrightarrow>
      generateBracelet srv doc this pg =
        (this2\<lparr>currentSTLFile := stl_file b\<rparr>,
         pg\<lparr>generateBtn_disabled := False,
            generateBtn_textContent := ''Generate 3D Bracelet'',
            loading_display := DisplayNone,
            infoPanel_display := DisplayBlock,
            downloadSection_display := DisplayBlock,
            vertex_count_textContent := real (length vs) / 3,
            face_count_textContent := real (length fs) / 3\<rparr>,
         [Post ''/generate_heartbeat''
          (HeartbeatBody \<lparr>heart_rate = heart_rate_value doc,
             stress_level = stress_level_value doc,
             activity_level = activity_level_value doc,
             emotion = emotion_value doc,
             duration = duration_value doc\<rparr>),
          Post ''/generate_3d_bracelet''
          (BraceletBody \<lparr>heartbeat_data_sent = samples,
             radius = radius_value doc,
             thickness = thickness_value doc,
             height_variation = height_variation_value doc,
             pattern_intensity = pattern_intensity_value doc,
             smoothness = smoothness_value doc\<rparr>)]))"
  by (simp add: generateBracelet_def generateBracelet_try_def generateHeartbeatData_def
          generate3DBracelet_def or_else_def Let_def)

lemma generateBracelet_second_failure:
  "(\<forall>r samples b.
      generate_heartbeat srv
           \<lparr>heart_rate = heart_rate_value doc,
             stress_level = stress_level_value doc,
             activity_level = activity_level_value doc,
             emotion = emotion_value doc,
             duration = duration_value doc\<rparr> = Inr r \<and> success r \<and> heartbeat_data r = Some samples \<and>
      generate_3d_bracelet srv
           \<lparr>heartbeat_data_sent = samples,
             radius = radius_value doc,
             thickness = thickness_value doc,
             height_variation = height_variation_value doc,
             pattern_intensity = pattern_intensity_value doc,
             smoothness = smoothness_value doc\<rparr> = Inr b \<and> \<not> success b \<longrightarrow>
      generateBracelet srv doc this pg =
        (this\<lparr>currentHeartbeatData := Some samples\<rparr>,
         pg\<lparr>generateBtn_disabled := False,
            generateBtn_textContent := ''Generate 3D Bracelet'',
            loading_display := DisplayNone,
            infoPanel_display := DisplayNone,
            downloadSection_display := DisplayNone\<rparr>,
         [Post ''/generate_heartbeat''
          (HeartbeatBody \<lparr>heart_rate = heart_rate_value doc,
             stress_level = stress_level_value doc,
             activity_level = activity_level_value doc,
             emotion = emotion_value doc,
             duration = duration_value doc\<rparr>),
          Post ''/generate_3d_bracelet''
          (BraceletBody \<lparr>heartbeat_data_sent = samples,
             radius = radius_value doc,
             thickness = thickness_value doc,
             height_variation = height_variation_value doc,
             pattern_intensity = pattern_intensity_value doc,
             smoothness = smoothness_value doc\<rparr>),
          Alert (''Error generating bracelet: '' @
                 (if truthy (error b) then the (error b)
                  else ''Failed to generate 3D bracelet''))]))"
  by (simp add: generateBracelet_def generateBracelet_try_def generateHeartbeatData_def
          generate3DBracelet_def or_else_def Let_def)

text \<open>
  Claim C7. \<open>generateBracelet\<close> performs its two round trips in order. Every run starts
  with the request for the waveform, and a request for the mesh is issued only after a
  first response that succeeded. When the first response carries \<open>success: false\<close>, the
  request for the mesh is never issued, nothing is visualized (the application object is
  unchanged, the info panel and the download section stay hidden), and the user is
  alerted with the error message of the envelope, or with a fixed text when the envelope
  has no message. When the first response succeeds and carries the samples, the request
  for the mesh follows at once, with those samples in its body, and no further request is
  made. When the second response succeeds too and the model is visualized, the run ends
  with the mesh in the application object, the name of the STL file stored and the
  panels shown; when the second response carries \<open>success: false\<close>, its message is alerted
  and nothing is visualized.
\<close>

theorem generateBracelet_round_trips:
  "(\<exists>rest. snd (snd (generateBracelet srv doc this pg)) =
        Post ''/generate_heartbeat''
          (HeartbeatBody \<lparr>heart_rate = heart_rate_value doc,
             stress_level = stress_level_value doc,
             activity_level = activity_level_value doc,
             emotion = emotion_value doc,
             duration = duration_value doc\<rparr>) # rest \<and>
        (\<forall>url b. Post url b \<in> set rest \<longrightarrow>
           url = ''/generate_3d_bracelet'' \<and>
           (\<exists>r. generate_heartbeat srv
                   \<lparr>heart_rate = heart_rate_value doc,
             stress_level = stress_level_value doc,
             activity_level = activity_level_value doc,
             emotion = emotion_value doc,
             duration = duration_value doc\<rparr> = Inr r \<and> success r))) \<and>
   (\<forall>r. generate_heartbeat srv
           \<lparr>heart_rate = heart_rate_value doc,
             stress_level = stress_level_value doc,
             activity_level = activity_level_value doc,
             emotion = emotion_value doc,
             duration = duration_value doc\<rparr> = Inr r \<and> \<not> success r \<longrightarrow>
      generateBracelet srv doc this pg =
        (this,
         pg\<lparr>generateBtn_disabled := False,
            generateBtn_textContent := ''Generate 3D Bracelet'',
            loading_display := DisplayNone,
            infoPanel_display := DisplayNone,
            downloadSection_display := DisplayNone\<rparr>,
         [Post ''/generate_heartbeat''
          (HeartbeatBody \<lparr>heart_rate = heart_rate_value doc,
             stress_level = stress_level_value doc,
             activity_level = activity_level_value doc,
             emotion = emotion_value doc,
             duration = duration_value doc\<rparr>),
          Alert (''Error generating bracelet: '' @
                 (if truthy (error r) then the (error r)
                  else ''Failed to generate heartbeat data''))])) \<and>
   (\<forall>r samples. generate_heartbeat srv
           \<lparr>heart_rate = heart_rate_value doc,
             stress_level = stress_level_value doc,
             activity_level = activity_level_value doc,
             emotion = emotion_value doc,
             duration = duration_value doc\<rparr> = Inr r \<and> success r \<and> heartbeat_data r = Some samples \<longrightarrow>
      (\<exists>rest. snd (snd (generateBracelet srv doc this pg)) =
         Post ''/generate_heartbeat''
          (HeartbeatBody \<lparr>heart_rate = heart_rate_value doc,
             stress_level = stress_level_value doc,
             activity_level = activity_level_value doc,
             emotion = emotion_value doc,
             duration = duration_value doc\<rparr>) #
         Post ''/generate_3d_bracelet''
          (BraceletBody \<lparr>heartbeat_data_sent = samples,
             radius = radius_value doc,
             thickness = thickness_value doc,
             height_variation = height_variation_value doc,
             pattern_intensity = pattern_intensity_value doc,
             smoothness = smoothness_value doc\<rparr>) # rest \<and>
         (\<forall>url b. Post url b \<notin> set rest) \<and>
         currentHeartbeatData (fst (generateBracelet srv doc this pg)) = Some samples)) \<and>
   (\<forall>r samples b this2 md console vs fs.
      generate_heartbeat srv
           \<lparr>heart_rate = heart_rate_value doc,
             stress_level = stress_level_value doc,
             activity_level = activity_level_value doc,
             emotion = emotion_value doc,
             duration = duration_value doc\<rparr> = Inr r \<and> success r \<and> heartbeat_data r = Some samples \<and>
      generate_3d_bracelet srv
           \<lparr>heartbeat_data_sent = samples,
             radius = radius_value doc,
             thickness = thickness_value doc,
             height_variation = height_variation_value doc,
             pattern_intensity = pattern_intensity_value doc,
             smoothness = smoothness_value doc\<rparr> = Inr b \<and> success b \<and>
      visualizeBracelet (this\<lparr>currentHeartbeatData := Some samples\<rparr>) (model_data b) =
        Inr (this2, md, console) \<and>
      vertices md = Some vs \<and> faces md = Some fs \<longrightarrow>
      generateBracelet srv doc this pg =
        (this2\<lparr>currentSTLFile := stl_file b\<rparr>,
         pg\<lparr>generateBtn_disabled := False,
            generateBtn_textContent := ''Generate 3D Bracelet'',
            loading_display := DisplayNone,
            infoPanel_display := DisplayBlock,
            downloadSection_display := DisplayBlock,
            vertex_count_textContent := real (length vs) / 3,
            face_count_textContent := real (length fs) / 3\<rparr>,
         [Post ''/generate_heartbeat''
          (HeartbeatBody \<lparr>heart_rate = heart_rate_value doc,
             stress_level = stress_level_value doc,
             activity_level = activity_level_value doc,
             emotion = emotion_value doc,
             duration = duration_value doc\<rparr>),
          Post ''/generate_3d_bracelet''
          (BraceletBody \<lparr>heartbeat_data_sent = samples,
             radius = radius_value doc,
             thickness = thickness_value doc,
             height_variation = height_variation_value doc,
             pattern_intensity = pattern_intensity_value doc,
             smoothness = smoothness_value doc\<rparr>)])) \<and>
   (\<forall>r samples b.
      generate_heartbeat srv
           \<lparr>heart_rate = heart_rate_value doc,
             stress_level = stress_level_value doc,
             activity_level = activity_level_value doc,
             emotion = emotion_value doc,
             duration = duration_value doc\<rparr> = Inr r \<and> success r \<and> heartbeat_data r = Some samples \<and>
      generate_3d_bracelet srv
           \<lparr>heartbeat_data_sent = samples,
             radius = radius_value doc,
             thickness = thickness_value doc,
             height_variation = height_variation_value doc,
             pattern_intensity = pattern_intensity_value doc,
             smoothness = smoothness_value doc\<rparr> = Inr b \<and> \<not> success b \<longrightarrow>
      generateBracelet srv doc this pg =
        (this\<lparr>currentHeartbeatData := Some samples\<rparr>,
         pg\<lparr>generateBtn_disabled := False,
            generateBtn_textContent := ''Generate 3D Bracelet'',
            loading_display := DisplayNone,
            infoPanel_display := DisplayNone,
            downloadSection_display := DisplayNone\<rparr>,
         [Post ''/generate_heartbeat''
          (HeartbeatBody \<lparr>heart_rate = heart_rate_value doc,
             stress_level = stress_level_value doc,
             activity_level = activity_level_value doc,
             emotion = emotion_value doc,
             duration = duration_value doc\<rparr>),
          Post ''/generate_3d_bracelet''
          (BraceletBody \<lparr>heartbeat_data_sent = samples,
             radius = radius_value doc,
             thickness = thickness_value doc,
             height_variation = height_variation_value doc,
             pattern_intensity = pattern_intensity_value doc,
             smoothness = smoothness_value doc\<rparr>),
          Alert (''Error generating bracelet: '' @
                 (if truthy (error b) then the (error b)
                  else ''Failed to generate 3D bracelet''))]))"
proof (intro conjI)
  show "(\<exists>rest. snd (snd (generateBracelet srv doc this pg)) =
        Post ''/generate_heartbeat''
          (HeartbeatBody \<lparr>heart_rate = heart_rate_value doc,
             stress_level = stress_level_value doc,
             activity_level = activity_level_value doc,
             emotion = emotion_value doc,
             duration = duration_value doc\<rparr>) # rest \<and>
        (\<forall>url b. Post url b \<in> set rest \<longrightarrow>
           url = ''/generate_3d_bracelet'' \<and>
           (\<exists>r. generate_heartbeat srv
                   \<lparr>heart_rate = heart_rate_value doc,
             stress_level = stress_level_value doc,
             activity_level = activity_level_value doc,
             emotion = emotion_value doc,
             duration = duration_value doc\<rparr> = Inr r \<and> success r)))"
    using generateBracelet_first_trip [of srv doc this pg] by (elim conjE)
  show "(\<forall>r. generate_heartbeat srv
           \<lparr>heart_rate = heart_rate_value doc,
             stress_level = stress_level_value doc,
             activity_level = activity_level_value doc,
             emotion = emotion_value doc,
             duration = duration_value doc\<rparr> = Inr r \<and> \<not> success r \<longrightarrow>
      generateBracelet srv doc this pg =
        (this,
         pg\<lparr>generateBtn_disabled := False,
            generateBtn_textContent := ''Generate 3D Bracelet'',
            loading_display := DisplayNone,
            infoPanel_display := DisplayNone,
            downloadSection_display := DisplayNone\<rparr>,
         [Post ''/generate_heartbeat''
          (HeartbeatBody \<lparr>heart_rate = heart_rate_value doc,
             stress_level = stress_level_value doc,
             activity_level = activity_level_value doc,
             emotion = emotion_value doc,
             duration = duration_value doc\<rparr>),
          Alert (''Error generating bracelet: '' @
                 (if truthy (error r) then the (error r)
                  else ''Failed to generate heartbeat data''))]))"
    using generateBracelet_first_trip [of srv doc this pg] by (elim conjE)
  show "(\<forall>r samples. generate_heartbeat srv
           \<lparr>heart_rate = heart_rate_value doc,
             stress_level = stress_level_value doc,
             activity_level = activity_level_value doc,
             emotion = emotion_value doc,
             duration = duration_value doc\<rparr> = Inr r \<and> success r \<and> heartbeat_data r = Some samples \<longrightarrow>
      (\<exists>rest. snd (snd (generateBracelet srv doc this pg)) =
         Post ''/generate_heartbeat''
          (HeartbeatBody \<lparr>heart_rate = heart_rate_value doc,
             stress_level = stress_level_value doc,
             activity_level = activity_level_value doc,
             emotion = emotion_value doc,
             duration = duration_value doc\<rparr>) #
         Post ''/generate_3d_bracelet''
          (BraceletBody \<lparr>heartbeat_data_sent = samples,
             radius = radius_value doc,
             thickness = thickness_value doc,
             height_variation = height_variation_value doc,
             pattern_intensity = pattern_intensity_value doc,
             smoothness = smoothness_value doc\<rparr>) # rest \<and>
         (\<forall>url b. Post url b \<notin> set rest) \<and>
         currentHeartbeatData (fst (generateBracelet srv doc this pg)) = Some samples))"
    using generateBracelet_mesh_request [of srv doc _ _ this pg] by blast
  show "(\<forall>r samples b this2 md console vs fs.
      generate_heartbeat srv
           \<lparr>heart_rate = heart_rate_value doc,
             stress_level = stress_level_value doc,
             activity_level = activity_level_value doc,
             emotion = emotion_value doc,
             duration = duration_value doc\<rparr> = Inr r \<and> success r \<and> heartbeat_data r = Some samples \<and>
      generate_3d_bracelet srv
           \<lparr>heartbeat_data_sent = samples,
             radius = radius_value doc,
             thickness = thickness_value doc,
             height_variation = height_variation_value doc,
             pattern_intensity = pattern_intensity_value doc,
             smoothness = smoothness_value doc\<rparr> = Inr b \<and> success b \<and>
      visualizeBracelet (this\<lparr>currentHeartbeatData := Some samples\<rparr>) (model_data b) =
        Inr (this2, md, console) \<and>
      vertices md = Some vs \<and> faces md = Some fs \<longrightarrow>
      generateBracelet srv doc this pg =
        (this2\<lparr>currentSTLFile := stl_file b\<rparr>,
         pg\<lparr>generateBtn_disabled := False,
            generateBtn_textContent := ''Generate 3D Bracelet'',
            loading_display := DisplayNone,
            infoPanel_display := DisplayBlock,
            downloadSection_display := DisplayBlock,
            vertex_count_textContent := real (length vs) / 3,
            face_count_textContent := real (length fs) / 3\<rparr>,
         [Post ''/generate_heartbeat''
          (HeartbeatBody \<lparr>heart_rate = heart_rate_value doc,
             stress_level = stress_level_value doc,
             activity_level = activity_level_value doc,
             emotion = emotion_value doc,
             duration = duration_value doc\<rparr>),
          Post ''/generate_3d_bracelet''
          (BraceletBody \<lparr>heartbeat_data_sent = samples,
             radius = radius_value doc,
             thickness = thickness_value doc,
             height_variation = height_variation_value doc,
             pattern_intensity = pattern_intensity_value doc,
             smoothness = smoothness_value doc\<rparr>)]))"
    by (rule generateBracelet_success)
  show "(\<forall>r samples b.
      generate_heartbeat srv
           \<lparr>heart_rate = heart_rate_value doc,
             stress_level = stress_level_value doc,
             activity_level = activity_level_value doc,
             emotion = emotion_value doc,
             duration = duration_value doc\<rparr> = Inr r \<and> success r \<and> heartbeat_data r = Some samples \<and>
      generate_3d_bracelet srv
           \<lparr>heartbeat_data_sent = samples,
             radius = radius_value doc,
             thickness = thickness_value doc,
             height_variation = height_variation_value doc,
             pattern_intensity = pattern_intensity_value doc,
             smoothness = smoothness_value doc\<rparr> = Inr b \<and> \<not> success b \<longrightarrow>
      generateBracelet srv doc this pg =
        (this\<lparr>currentHeartbeatData := Some samples\<rparr>,
         pg\<lparr>generateBtn_disabled := False,
            generateBtn_textContent := ''Generate 3D Bracelet'',
            loading_display := DisplayNone,
            infoPanel_display := DisplayNone,
            downloadSection_display := DisplayNone\<rparr>,
         [Post ''/generate_heartbeat''
          (HeartbeatBody \<lparr>heart_rate = heart_rate_value doc,
             stress_level = stress_level_value doc,
             activity_level = activity_level_value doc,
             emotion = emotion_value doc,
             duration = duration_value doc\<rparr>),
          Post ''/generate_3d_bracelet''
          (BraceletBody \<lparr>heartbeat_data_sent = samples,
             radius = radius_value doc,
             thickness = thickness_value doc,
             height_variation = height_variation_value doc,
             pattern_intensity = pattern_intensity_value doc,
             smoothness = smoothness_value doc\<rparr>),
          Alert (''Error generating bracelet: '' @
                 (if truthy (error b) then the (error b)
                  else ''Failed to generate 3D bracelet''))]))"
    by (rule generateBracelet_second_failure)
qed

theorem generateBracelet_round_trips_witness:
  "generateBracelet
     \<lparr>generate_heartbeat =
        (\<lambda>p. Inr \<lparr>success = False, error = Some ''heart_rate must be positive'',
                   heartbeat_data = None\<rparr>),
      generate_3d_bracelet = (\<lambda>p. Inl (Error ''not reached''))\<rparr>
     \<lparr>heart_rate_value = 0, stress_level_value = 0.3, activity_level_value = 0.5,
      emotion_value = ''calm'', duration_value = 10, radius_value = 30,
      thickness_value = 3, height_variation_value = 2, pattern_intensity_value = 1,
      smoothness_value = 0.5\<rparr>
     \<lparr>scene = [], braceletMesh = None, currentHeartbeatData = None, currentSTLFile = None\<rparr>
     \<lparr>generateBtn_disabled = False, generateBtn_textContent = ''Generate 3D Bracelet'',
      loading_display = DisplayNone, infoPanel_display = DisplayBlock,
      downloadSection_display = DisplayBlock, vertex_count_textContent = 0,
      face_count_textContent = 0\<rparr> =
   (\<lparr>scene = [], braceletMesh = None, currentHeartbeatData = None, currentSTLFile = None\<rparr>,
    \<lparr>generateBtn_disabled = False, generateBtn_textContent = ''Generate 3D Bracelet'',
      loading_display = DisplayNone, infoPanel_display = DisplayNone,
      downloadSection_display = DisplayNone, vertex_count_textContent = 0,
      face_count_textContent = 0\<rparr>,
    [Post ''/generate_heartbeat''
       (HeartbeatBody \<lparr>heart_rate = 0, stress_level = 0.3, activity_level = 0.5,
                        emotion = ''calm'', duration = 10\<rparr>),
     Alert ''Error generating bracelet: heart_rate must be positive'']) \<and>
   generateBracelet
     \<lparr>generate_heartbeat =
        (\<lambda>p. Inr \<lparr>success = True, error = None, heartbeat_data = Some [Finite 0.5, Finite 0]\<rparr>),
      generate_3d_bracelet =
        (\<lambda>p. Inr \<lparr>success = True, error = None,
                   model_data =
                     Some \<lparr>vertices = Some [Finite 1, Finite 2, Finite 3],
                              faces = Some [Finite 0, Finite 0, Finite 0],
                              normals = None, colors = None\<rparr>,
                   stl_file = Some ''bracelet_1.stl''\<rparr>)\<rparr>
     \<lparr>heart_rate_value = 72, stress_level_value = 0.3, activity_level_value = 0.5,
      emotion_value = ''calm'', duration_value = 10, radius_value = 30,
      thickness_value = 3, height_variation_value = 2, pattern_intensity_value = 1,
      smoothness_value = 0.5\<rparr>
     \<lparr>scene = [], braceletMesh = None, currentHeartbeatData = None, currentSTLFile = None\<rparr>
     \<lparr>generateBtn_disabled = False, generateBtn_textContent = ''Generate 3D Bracelet'',
      loading_display = DisplayNone, infoPanel_display = DisplayBlock,
      downloadSection_display = DisplayBlock, vertex_count_textContent = 0,
      face_count_textContent = 0\<rparr> =
   (\<lparr>scene =
        [\<lparr>mesh_geometry =
           \<lparr>position = Float32Array [Finite 1, Finite 2, Finite 3],
            index = Uint32Array [Finite 0, Finite 0, Finite 0],
            normal = ComputeVertexNormals, color = None\<rparr>,
         mesh_material = \<lparr>vertexColors = False\<rparr>\<rparr>],
      braceletMesh =
        Some \<lparr>mesh_geometry =
           \<lparr>position = Float32Array [Finite 1, Finite 2, Finite 3],
            index = Uint32Array [Finite 0, Finite 0, Finite 0],
            normal = ComputeVertexNormals, color = None\<rparr>,
         mesh_material = \<lparr>vertexColors = False\<rparr>\<rparr>,
      currentHeartbeatData = Some [Finite 0.5, Finite 0],
      currentSTLFile = Some ''bracelet_1.stl''\<rparr>,
    \<lparr>generateBtn_disabled = False, generateBtn_textContent = ''Generate 3D Bracelet'',
      loading_display = DisplayNone, infoPanel_display = DisplayBlock,
      downloadSection_display = DisplayBlock, vertex_count_textContent = 1,
      face_count_textContent = 1\<rparr>,
    [Post ''/generate_heartbeat''
       (HeartbeatBody \<lparr>heart_rate = 72, stress_level = 0.3, activity_level = 0.5,
                        emotion = ''calm'', duration = 10\<rparr>),
     Post ''/generate_3d_bracelet''
       (BraceletBody \<lparr>heartbeat_data_sent = [Finite 0.5, Finite 0], radius = 30, thickness = 3,
                       height_variation = 2, pattern_intensity = 1, smoothness = 0.5\<rparr>)]) \<and>
   generateBracelet
     \<lparr>generate_heartbeat =
        (\<lambda>p. Inr \<lparr>success = True, error = None, heartbeat_data = Some [Finite 0.5, Finite 0]\<rparr>),
      generate_3d_bracelet =
        (\<lambda>p. Inr \<lparr>success = False, error = Some ''mesh generation failed'',
                   model_data = None, stl_file = None\<rparr>)\<rparr>
     \<lparr>heart_rate_value = 72, stress_level_value = 0.3, activity_level_value = 0.5,
      emotion_value = ''calm'', duration_value = 10, radius_value = 30,
      thickness_value = 3, height_variation_value = 2, pattern_intensity_value = 1,
      smoothness_value = 0.5\<rparr>
     \<lparr>scene = [], braceletMesh = None, currentHeartbeatData = None, currentSTLFile = None\<rparr>
     \<lparr>generateBtn_disabled = False, generateBtn_textContent = ''Generate 3D Bracelet'',
      loading_display = DisplayNone, infoPanel_display = DisplayBlock,
      downloadSection_display = DisplayBlock, vertex_count_textContent = 0,
      face_count_textContent = 0\<rparr> =
   (\<lparr>scene = [], braceletMesh = None,
      currentHeartbeatData = Some [Finite 0.5, Finite 0], currentSTLFile = None\<rparr>,
    \<lparr>generateBtn_disabled = False, generateBtn_textContent = ''Generate 3D Bracelet'',
      loading_display = DisplayNone, infoPanel_display = DisplayNone,
      downloadSection_display = DisplayNone, vertex_count_textContent = 0,
      face_count_textContent = 0\<rparr>,
    [Post ''/generate_heartbeat''
       (HeartbeatBody \<lparr>heart_rate = 72, stress_level = 0.3, activity_level = 0.5,
                        emotion = ''calm'', duration = 10\<rparr>),
     Post ''/generate_3d_bracelet''
       (BraceletBody \<lparr>heartbeat_data_sent = [Finite 0.5, Finite 0], radius = 30, thickness = 3,
                       height_variation = 2, pattern_intensity = 1, smoothness = 0.5\<rparr>),
     Alert ''Error generating bracelet: mesh generation failed''])"
proof (intro conjI)
  show "generateBracelet
     \<lparr>generate_heartbeat =
        (\<lambda>p. Inr \<lparr>success = False, error = Some ''heart_rate must be positive'',
                   heartbeat_data = None\<rparr>),
      generate_3d_bracelet = (\<lambda>p. Inl (Error ''not reached''))\<rparr>
     \<lparr>heart_rate_value = 0, stress_level_value = 0.3, activity_level_value = 0.5,
      emotion_value = ''calm'', duration_value = 10, radius_value = 30,
      thickness_value = 3, height_variation_value = 2, pattern_intensity_value = 1,
      smoothness_value = 0.5\<rparr>
     \<lparr>scene = [], braceletMesh = None, currentHeartbeatData = None, currentSTLFile = None\<rparr>
     \<lparr>generateBtn_disabled = False, generateBtn_textContent = ''Generate 3D Bracelet'',
      loading_display = DisplayNone, infoPanel_display = DisplayBlock,
      downloadSection_display = DisplayBlock, vertex_count_textContent = 0,
      face_count_textContent = 0\<rparr> =
   (\<lparr>scene = [], braceletMesh = None, currentHeartbeatData = None, currentSTLFile = None\<rparr>,
    \<lparr>generateBtn_disabled = False, generateBtn_textContent = ''Generate 3D Bracelet'',
      loading_display = DisplayNone, infoPanel_display = DisplayNone,
      downloadSection_display = DisplayNone, vertex_count_textContent = 0,
      face_count_textContent = 0\<rparr>,
    [Post ''/generate_heartbeat''
       (HeartbeatBody \<lparr>heart_rate = 0, stress_level = 0.3, activity_level = 0.5,
                        emotion = ''calm'', duration = 10\<rparr>),
     Alert ''Error generating bracelet: heart_rate must be positive''])"
    using generateBracelet_round_trips
      [of "\<lparr>generate_heartbeat =
        (\<lambda>p. Inr \<lparr>success = False, error = Some ''heart_rate must be positive'',
                   heartbeat_data = None\<rparr>),
      generate_3d_bracelet = (\<lambda>p. Inl (Error ''not reached''))\<rparr>"
          "\<lparr>heart_rate_value = 0, stress_level_value = 0.3, activity_level_value = 0.5,
      emotion_value = ''calm'', duration_value = 10, radius_value = 30,
      thickness_value = 3, height_variation_value = 2, pattern_intensity_value = 1,
      smoothness_value = 0.5\<rparr>"
          "\<lparr>scene = [], braceletMesh = None, currentHeartbeatData = None, currentSTLFile = None\<rparr>"
          "\<lparr>generateBtn_disabled = False, generateBtn_textContent = ''Generate 3D Bracelet'',
      loading_display = DisplayNone, infoPanel_display = DisplayBlock,
      downloadSection_display = DisplayBlock, vertex_count_textContent = 0,
      face_count_textContent = 0\<rparr>"]
    by simp
next
  have vis: "visualizeBracelet \<lparr>scene = [], braceletMesh = None,
                       currentHeartbeatData = Some [Finite 0.5, Finite 0],
                       currentSTLFile = None\<rparr>
      (Some \<lparr>vertices = Some [Finite 1, Finite 2, Finite 3],
                              faces = Some [Finite 0, Finite 0, Finite 0],
                              normals = None, colors = None\<rparr>) =
    Inr (\<lparr>scene =
        [\<lparr>mesh_geometry =
           \<lparr>position = Float32Array [Finite 1, Finite 2, Finite 3],
            index = Uint32Array [Finite 0, Finite 0, Finite 0],
            normal = ComputeVertexNormals, color = None\<rparr>,
         mesh_material = \<lparr>vertexColors = False\<rparr>\<rparr>],
      braceletMesh =
        Some \<lparr>mesh_geometry =
           \<lparr>position = Float32Array [Finite 1, Finite 2, Finite 3],
            index = Uint32Array [Finite 0, Finite 0, Finite 0],
            normal = ComputeVertexNormals, color = None\<rparr>,
         mesh_material = \<lparr>vertexColors = False\<rparr>\<rparr>,
      currentHeartbeatData = Some [Finite 0.5, Finite 0], currentSTLFile = None\<rparr>,
         \<lparr>vertices = Some [Finite 1, Finite 2, Finite 3],
                              faces = Some [Finite 0, Finite 0, Finite 0],
                              normals = None, colors = None\<rparr>, [LogAllVertexValuesValid])"
    by (simp add: visualizeBracelet_def Let_def check_vertices_def count_loop.simps)
  have hyp: "generate_heartbeat \<lparr>generate_heartbeat =
        (\<lambda>p. Inr \<lparr>success = True, error = None, heartbeat_data = Some [Finite 0.5, Finite 0]\<rparr>),
      generate_3d_bracelet =
        (\<lambda>p. Inr \<lparr>success = True, error = None,
                   model_data =
                     Some \<lparr>vertices = Some [Finite 1, Finite 2, Finite 3],
                              faces = Some [Finite 0, Finite 0, Finite 0],
                              normals = None, colors = None\<rparr>,
                   stl_file = Some ''bracelet_1.stl''\<rparr>)\<rparr>
        \<lparr>heart_rate = heart_rate_value \<lparr>heart_rate_value = 72, stress_level_value = 0.3, activity_level_value = 0.5,
      emotion_value = ''calm'', duration_value = 10, radius_value = 30,
      thickness_value = 3, height_variation_value = 2, pattern_intensity_value = 1,
      smoothness_value = 0.5\<rparr>,
          stress_level = stress_level_value \<lparr>heart_rate_value = 72, stress_level_value = 0.3, activity_level_value = 0.5,
      emotion_value = ''calm'', duration_value = 10, radius_value = 30,
      thickness_value = 3, height_variation_value = 2, pattern_intensity_value = 1,
      smoothness_value = 0.5\<rparr>,
          activity_level = activity_level_value \<lparr>heart_rate_value = 72, stress_level_value = 0.3, activity_level_value = 0.5,
      emotion_value = ''calm'', duration_value = 10, radius_value = 30,
      thickness_value = 3, height_variation_value = 2, pattern_intensity_value = 1,
      smoothness_value = 0.5\<rparr>,
          emotion = emotion_value \<lparr>heart_rate_value = 72, stress_level_value = 0.3, activity_level_value = 0.5,
      emotion_value = ''calm'', duration_value = 10, radius_value = 30,
      thickness_value = 3, height_variation_value = 2, pattern_intensity_value = 1,
      smoothness_value = 0.5\<rparr>,
          duration = duration_value \<lparr>heart_rate_value = 72, stress_level_value = 0.3, activity_level_value = 0.5,
      emotion_value = ''calm'', duration_value = 10, radius_value = 30,
      thickness_value = 3, height_variation_value = 2, pattern_intensity_value = 1,
      smoothness_value = 0.5\<rparr>\<rparr> =
        Inr \<lparr>success = True, error = None, heartbeat_data = Some [Finite 0.5, Finite 0]\<rparr> \<and>
      success \<lparr>success = True, error = None, heartbeat_data = Some [Finite 0.5, Finite 0]\<rparr> \<and>
      heartbeat_data \<lparr>success = True, error = None, heartbeat_data = Some [Finite 0.5, Finite 0]\<rparr> = Some [Finite 0.5, Finite 0] \<and>
      generate_3d_bracelet \<lparr>generate_heartbeat =
        (\<lambda>p. Inr \<lparr>success = True, error = None, heartbeat_data = Some [Finite 0.5, Finite 0]\<rparr>),
      generate_3d_bracelet =
        (\<lambda>p. Inr \<lparr>success = True, error = None,
                   model_data =
                     Some \<lparr>vertices = Some [Finite 1, Finite 2, Finite 3],
                              faces = Some [Finite 0, Finite 0, Finite 0],
                              normals = None, colors = None\<rparr>,
                   stl_file = Some ''bracelet_1.stl''\<rparr>)\<rparr>
        \<lparr>heartbeat_data_sent = [Finite 0.5, Finite 0],
          radius = radius_value \<lparr>heart_rate_value = 72, stress_level_value = 0.3, activity_level_value = 0.5,
      emotion_value = ''calm'', duration_value = 10, radius_value = 30,
      thickness_value = 3, height_variation_value = 2, pattern_intensity_value = 1,
      smoothness_value = 0.5\<rparr>,
          thickness = thickness_value \<lparr>heart_rate_value = 72, stress_level_value = 0.3, activity_level_value = 0.5,
      emotion_value = ''calm'', duration_value = 10, radius_value = 30,
      thickness_value = 3, height_variation_value = 2, pattern_intensity_value = 1,
      smoothness_value = 0.5\<rparr>,
          height_variation = height_variation_value \<lparr>heart_rate_value = 72, stress_level_value = 0.3, activity_level_value = 0.5,
      emotion_value = ''calm'', duration_value = 10, radius_value = 30,
      thickness_value = 3, height_variation_value = 2, pattern_intensity_value = 1,
      smoothness_value = 0.5\<rparr>,
          pattern_intensity = pattern_intensity_value \<lparr>heart_rate_value = 72, stress_level_value = 0.3, activity_level_value = 0.5,
      emotion_value = ''calm'', duration_value = 10, radius_value = 30,
      thickness_value = 3, height_variation_value = 2, pattern_intensity_value = 1,
      smoothness_value = 0.5\<rparr>,
          smoothness = smoothness_value \<lparr>heart_rate_value = 72, stress_level_value = 0.3, activity_level_value = 0.5,
      emotion_value = ''calm'', duration_value = 10, radius_value = 30,
      thickness_value = 3, height_variation_value = 2, pattern_intensity_value = 1,
      smoothness_value = 0.5\<rparr>\<rparr> =
        Inr \<lparr>success = True, error = None,
                   model_data =
                     Some \<lparr>vertices = Some [Finite 1, Finite 2, Finite 3],
                              faces = Some [Finite 0, Finite 0, Finite 0],
                              normals = None, colors = None\<rparr>,
                   stl_file = Some ''bracelet_1.stl''\<rparr> \<and>
      success \<lparr>success = True, error = None,
                   model_data =
                     Some \<lparr>vertices = Some [Finite 1, Finite 2, Finite 3],
                              faces = Some [Finite 0, Finite 0, Finite 0],
                              normals = None, colors = None\<rparr>,
                   stl_file = Some ''bracelet_1.stl''\<rparr> \<and>
      visualizeBracelet
        (\<lparr>scene = [], braceletMesh = None, currentHeartbeatData = None, currentSTLFile = None\<rparr>\<lparr>currentHeartbeatData := Some [Finite 0.5, Finite 0]\<rparr>)
        (model_data \<lparr>success = True, error = None,
                   model_data =
                     Some \<lparr>vertices = Some [Finite 1, Finite 2, Finite 3],
                              faces = Some [Finite 0, Finite 0, Finite 0],
                              normals = None, colors = None\<rparr>,
                   stl_file = Some ''bracelet_1.stl''\<rparr>) =
        Inr (\<lparr>scene =
        [\<lparr>mesh_geometry =
           \<lparr>position = Float32Array [Finite 1, Finite 2, Finite 3],
            index = Uint32Array [Finite 0, Finite 0, Finite 0],
            normal = ComputeVertexNormals, color = None\<rparr>,
         mesh_material = \<lparr>vertexColors = False\<rparr>\<rparr>],
      braceletMesh =
        Some \<lparr>mesh_geometry =
           \<lparr>position = Float32Array [Finite 1, Finite 2, Finite 3],
            index = Uint32Array [Finite 0, Finite 0, Finite 0],
            normal = ComputeVertexNormals, color = None\<rparr>,
         mesh_material = \<lparr>vertexColors = False\<rparr>\<rparr>,
      currentHeartbeatData = Some [Finite 0.5, Finite 0], currentSTLFile = None\<rparr>,
             \<lparr>vertices = Some [Finite 1, Finite 2, Finite 3],
                              faces = Some [Finite 0, Finite 0, Finite 0],
                              normals = None, colors = None\<rparr>, [LogAllVertexValuesValid]) \<and>
      vertices \<lparr>vertices = Some [Finite 1, Finite 2, Finite 3],
                              faces = Some [Finite 0, Finite 0, Finite 0],
                              normals = None, colors = None\<rparr> = Some [Finite 1, Finite 2, Finite 3] \<and>
      faces \<lparr>vertices = Some [Finite 1, Finite 2, Finite 3],
                              faces = Some [Finite 0, Finite 0, Finite 0],
                              normals = None, colors = None\<rparr> = Some [Finite 0, Finite 0, Finite 0]"
    using vis by simp
  from generateBracelet_round_trips
      [of "\<lparr>generate_heartbeat =
        (\<lambda>p. Inr \<lparr>success = True, error = None, heartbeat_data = Some [Finite 0.5, Finite 0]\<rparr>),
      generate_3d_bracelet =
        (\<lambda>p. Inr \<lparr>success = True, error = None,
                   model_data =
                     Some \<lparr>vertices = Some [Finite 1, Finite 2, Finite 3],
                              faces = Some [Finite 0, Finite 0, Finite 0],
                              normals = None, colors = None\<rparr>,
                   stl_file = Some ''bracelet_1.stl''\<rparr>)\<rparr>"
          "\<lparr>heart_rate_value = 72, stress_level_value = 0.3, activity_level_value = 0.5,
      emotion_value = ''calm'', duration_value = 10, radius_value = 30,
      thickness_value = 3, height_variation_value = 2, pattern_intensity_value = 1,
      smoothness_value = 0.5\<rparr>"
          "\<lparr>scene = [], braceletMesh = None, currentHeartbeatData = None, currentSTLFile = None\<rparr>"
          "\<lparr>generateBtn_disabled = False, generateBtn_textContent = ''Generate 3D Bracelet'',
      loading_display = DisplayNone, infoPanel_display = DisplayBlock,
      downloadSection_display = DisplayBlock, vertex_count_textContent = 0,
      face_count_textContent = 0\<rparr>",
       THEN conjunct2, THEN conjunct2, THEN conjunct2, THEN conjunct1, rule_format, OF hyp]
  show "generateBracelet
     \<lparr>generate_heartbeat =
        (\<lambda>p. Inr \<lparr>success = True, error = None, heartbeat_data = Some [Finite 0.5, Finite 0]\<rparr>),
      generate_3d_bracelet =
        (\<lambda>p. Inr \<lparr>success = True, error = None,
                   model_data =
                     Some \<lparr>vertices = Some [Finite 1, Finite 2, Finite 3],
                              faces = Some [Finite 0, Finite 0, Finite 0],
                              normals = None, colors = None\<rparr>,
                   stl_file = Some ''bracelet_1.stl''\<rparr>)\<rparr>
     \<lparr>heart_rate_value = 72, stress_level_value = 0.3, activity_level_value = 0.5,
      emotion_value = ''calm'', duration_value = 10, radius_value = 30,
      thickness_value = 3, height_variation_value = 2, pattern_intensity_value = 1,
      smoothness_value = 0.5\<rparr>
     \<lparr>scene = [], braceletMesh = None, currentHeartbeatData = None, currentSTLFile = None\<rparr>
     \<lparr>generateBtn_disabled = False, generateBtn_textContent = ''Generate 3D Bracelet'',
      loading_display = DisplayNone, infoPanel_display = DisplayBlock,
      downloadSection_display = DisplayBlock, vertex_count_textContent = 0,
      face_count_textContent = 0\<rparr> =
   (\<lparr>scene =
        [\<lparr>mesh_geometry =
           \<lparr>position = Float32Array [Finite 1, Finite 2, Finite 3],
            index = Uint32Array [Finite 0, Finite 0, Finite 0],
            normal = ComputeVertexNormals, color = None\<rparr>,
         mesh_material = \<lparr>vertexColors = False\<rparr>\<rparr>],
      braceletMesh =
        Some \<lparr>mesh_geometry =
           \<lparr>position = Float32Array [Finite 1, Finite 2, Finite 3],
            index = Uint32Array [Finite 0, Finite 0, Finite 0],
            normal = ComputeVertexNormals, color = None\<rparr>,
         mesh_material = \<lparr>vertexColors = False\<rparr>\<rparr>,
      currentHeartbeatData = Some [Finite 0.5, Finite 0],
      currentSTLFile = Some ''bracelet_1.stl''\<rparr>,
    \<lparr>generateBtn_disabled = False, generateBtn_textContent = ''Generate 3D Bracelet'',
      loading_display = DisplayNone, infoPanel_display = DisplayBlock,
      downloadSection_display = DisplayBlock, vertex_count_textContent = 1,
      face_count_textContent = 1\<rparr>,
    [Post ''/generate_heartbeat''
       (HeartbeatBody \<lparr>heart_rate = 72, stress_level = 0.3, activity_level = 0.5,
                        emotion = ''calm'', duration = 10\<rparr>),
     Post ''/generate_3d_bracelet''
       (BraceletBody \<lparr>heartbeat_data_sent = [Finite 0.5, Finite 0], radius = 30, thickness = 3,
                       height_variation = 2, pattern_intensity = 1, smoothness = 0.5\<rparr>)])"
    by simp
next
  have hyp2: "generate_heartbeat \<lparr>generate_heartbeat =
        (\<lambda>p. Inr \<lparr>success = True, error = None, heartbeat_data = Some [Finite 0.5, Finite 0]\<rparr>),
      generate_3d_bracelet =
        (\<lambda>p. Inr \<lparr>success = False, error = Some ''mesh generation failed'',
                   model_data = None, stl_file = None\<rparr>)\<rparr>
        \<lparr>heart_rate = heart_rate_value \<lparr>heart_rate_value = 72, stress_level_value = 0.3, activity_level_value = 0.5,
      emotion_value = ''calm'', duration_value = 10, radius_value = 30,
      thickness_value = 3, height_variation_value = 2, pattern_intensity_value = 1,
      smoothness_value = 0.5\<rparr>,
          stress_level = stress_level_value \<lparr>heart_rate_value = 72, stress_level_value = 0.3, activity_level_value = 0.5,
      emotion_value = ''calm'', duration_value = 10, radius_value = 30,
      thickness_value = 3, height_variation_value = 2, pattern_intensity_value = 1,
      smoothness_value = 0.5\<rparr>,
          activity_level = activity_level_value \<lparr>heart_rate_value = 72, stress_level_value = 0.3, activity_level_value = 0.5,
      emotion_value = ''calm'', duration_value = 10, radius_value = 30,
      thickness_value = 3, height_variation_value = 2, pattern_intensity_value = 1,
      smoothness_value = 0.5\<rparr>,
          emotion = emotion_value \<lparr>heart_rate_value = 72, stress_level_value = 0.3, activity_level_value = 0.5,
      emotion_value = ''calm'', duration_value = 10, radius_value = 30,
      thickness_value = 3, height_variation_value = 2, pattern_intensity_value = 1,
      smoothness_value = 0.5\<rparr>,
          duration = duration_value \<lparr>heart_rate_value = 72, stress_level_value = 0.3, activity_level_value = 0.5,
      emotion_value = ''calm'', duration_value = 10, radius_value = 30,
      thickness_value = 3, height_variation_value = 2, pattern_intensity_value = 1,
      smoothness_value = 0.5\<rparr>\<rparr> =
        Inr \<lparr>success = True, error = None, heartbeat_data = Some [Finite 0.5, Finite 0]\<rparr> \<and>
      success \<lparr>success = True, error = None, heartbeat_data = Some [Finite 0.5, Finite 0]\<rparr> \<and>
      heartbeat_data \<lparr>success = True, error = None, heartbeat_data = Some [Finite 0.5, Finite 0]\<rparr> = Some [Finite 0.5, Finite 0] \<and>
      generate_3d_bracelet \<lparr>generate_heartbeat =
        (\<lambda>p. Inr \<lparr>success = True, error = None, heartbeat_data = Some [Finite 0.5, Finite 0]\<rparr>),
      generate_3d_bracelet =
        (\<lambda>p. Inr \<lparr>success = False, error = Some ''mesh generation failed'',
                   model_data = None, stl_file = None\<rparr>)\<rparr>
        \<lparr>heartbeat_data_sent = [Finite 0.5, Finite 0],
          radius = radius_value \<lparr>heart_rate_value = 72, stress_level_value = 0.3, activity_level_value = 0.5,
      emotion_value = ''calm'', duration_value = 10, radius_value = 30,
      thickness_value = 3, height_variation_value = 2, pattern_intensity_value = 1,
      smoothness_value = 0.5\<rparr>,
          thickness = thickness_value \<lparr>heart_rate_value = 72, stress_level_value = 0.3, activity_level_value = 0.5,
      emotion_value = ''calm'', duration_value = 10, radius_value = 30,
      thickness_value = 3, height_variation_value = 2, pattern_intensity_value = 1,
      smoothness_value = 0.5\<rparr>,
          height_variation = height_variation_value \<lparr>heart_rate_value = 72, stress_level_value = 0.3, activity_level_value = 0.5,
      emotion_value = ''calm'', duration_value = 10, radius_value = 30,
      thickness_value = 3, height_variation_value = 2, pattern_intensity_value = 1,
      smoothness_value = 0.5\<rparr>,
          pattern_intensity = pattern_intensity_value \<lparr>heart_rate_value = 72, stress_level_value = 0.3, activity_level_value = 0.5,
      emotion_value = ''calm'', duration_value = 10, radius_value = 30,
      thickness_value = 3, height_variation_value = 2, pattern_intensity_value = 1,
      smoothness_value = 0.5\<rparr>,
          smoothness = smoothness_value \<lparr>heart_rate_value = 72, stress_level_value = 0.3, activity_level_value = 0.5,
      emotion_value = ''calm'', duration_value = 10, radius_value = 30,
      thickness_value = 3, height_variation_value = 2, pattern_intensity_value = 1,
      smoothness_value = 0.5\<rparr>\<rparr> =
        Inr \<lparr>success = False, error = Some ''mesh generation failed'',
                   model_data = None, stl_file = None\<rparr> \<and>
      \<not> success \<lparr>success = False, error = Some ''mesh generation failed'',
                   model_data = None, stl_file = None\<rparr>"
    by simp
  from generateBracelet_round_trips
      [of "\<lparr>generate_heartbeat =
        (\<lambda>p. Inr \<lparr>success = True, error = None, heartbeat_data = Some [Finite 0.5, Finite 0]\<rparr>),
      generate_3d_bracelet =
        (\<lambda>p. Inr \<lparr>success = False, error = Some ''mesh generation failed'',
                   model_data = None, stl_file = None\<rparr>)\<rparr>"
          "\<lparr>heart_rate_value = 72, stress_level_value = 0.3, activity_level_value = 0.5,
      emotion_value = ''calm'', duration_value = 10, radius_value = 30,
      thickness_value = 3, height_variation_value = 2, pattern_intensity_value = 1,
      smoothness_value = 0.5\<rparr>"
          "\<lparr>scene = [], braceletMesh = None, currentHeartbeatData = None, currentSTLFile = None\<rparr>"
          "\<lparr>generateBtn_disabled = False, generateBtn_textContent = ''Generate 3D Bracelet'',
      loading_display = DisplayNone, infoPanel_display = DisplayBlock,
      downloadSection_display = DisplayBlock, vertex_count_textContent = 0,
      face_count_textContent = 0\<rparr>",
       THEN conjunct2, THEN conjunct2, THEN conjunct2, THEN conjunct2, rule_format, OF hyp2]
  show "generateBracelet
     \<lparr>generate_heartbeat =
        (\<lambda>p. Inr \<lparr>success = True, error = None, heartbeat_data = Some [Finite 0.5, Finite 0]\<rparr>),
      generate_3d_bracelet =
        (\<lambda>p. Inr \<lparr>success = False, error = Some ''mesh generation failed'',
                   model_data = None, stl_file = None\<rparr>)\<rparr>
     \<lparr>heart_rate_value = 72, stress_level_value = 0.3, activity_level_value = 0.5,
      emotion_value = ''calm'', duration_value = 10, radius_value = 30,
      thickness_value = 3, height_variation_value = 2, pattern_intensity_value = 1,
      smoothness_value = 0.5\<rparr>
     \<lparr>scene = [], braceletMesh = None, currentHeartbeatData = None, currentSTLFile = None\<rparr>
     \<lparr>generateBtn_disabled = False, generateBtn_textContent = ''Generate 3D Bracelet'',
      loading_display = DisplayNone, infoPanel_display = DisplayBlock,
      downloadSection_display = DisplayBlock, vertex_count_textContent = 0,
      face_count_textContent = 0\<rparr> =
   (\<lparr>scene = [], braceletMesh = None,
      currentHeartbeatData = Some [Finite 0.5, Finite 0], currentSTLFile = None\<rparr>,
    \<lparr>generateBtn_disabled = False, generateBtn_textContent = ''Generate 3D Bracelet'',
      loading_display = DisplayNone, infoPanel_display = DisplayNone,
      downloadSection_display = DisplayNone, vertex_count_textContent = 0,
      face_count_textContent = 0\<rparr>,
    [Post ''/generate_heartbeat''
       (HeartbeatBody \<lparr>heart_rate = 72, stress_level = 0.3, activity_level = 0.5,
                        emotion = ''calm'', duration = 10\<rparr>),
     Post ''/generate_3d_bracelet''
       (BraceletBody \<lparr>heartbeat_data_sent = [Finite 0.5, Finite 0], radius = 30, thickness = 3,
                       height_variation = 2, pattern_intensity = 1, smoothness = 0.5\<rparr>),
     Alert ''Error generating bracelet: mesh generation failed''])"
    by simp
qed

section \<open>Properties of the heartbeat preview\<close>

lemma remainder_one_frac: "0 \<le> x \<Longrightarrow> remainder x 1 = frac x"
  by (simp add: remainder_def trunc_def frac_def)

lemma beat_phase_frac:
  assumes "0 \<le> t" and "0 \<le> heartRate"
  shows "remainder (t * (of_int heartRate / 60)) 1 = frac (t * of_int heartRate / 60)"
proof -
  from assms have "0 \<le> t * (of_int heartRate / 60)" by simp
  then show ?thesis by (simp add: remainder_one_frac)
qed

lemma amplitude_of_phase:
  "amplitude_before_noise heartRate activityLevel t =
   (if remainder (t * (of_int heartRate / 60)) 1 < 0.1
    then sin (remainder (t * (of_int heartRate / 60)) 1 / 0.1 * pi) * (0.8 + activityLevel * 0.4)
    else if remainder (t * (of_int heartRate / 60)) 1 > 0.3 \<and>
            remainder (t * (of_int heartRate / 60)) 1 < 0.6
    then sin ((remainder (t * (of_int heartRate / 60)) 1 - 0.3) / 0.3 * pi) * 0.3
    else 0)"
  by (simp add: amplitude_before_noise_def Let_def)

text \<open>
  Claim C1. At a sample time \<open>t \<ge> 0\<close>, for a heart rate that is not negative, let the
  beat phase be the fractional part of \<open>t * heart_rate / 60\<close>. The amplitude before the
  noise is \<open>sin (phase / 0.1 * pi) * (0.8 + activity_level * 0.4)\<close> when the phase is
  below 0.1, it is \<open>sin ((phase - 0.3) / 0.3 * pi) * 0.3\<close> when the phase lies strictly
  between 0.3 and 0.6, and it is 0 otherwise.
\<close>

theorem amplitude_before_noise_piecewise:
  assumes "0 \<le> t" and "0 \<le> heartRate"
  shows "(frac (t * of_int heartRate / 60) < 0.1 \<longrightarrow>
            amplitude_before_noise heartRate activityLevel t =
              sin (frac (t * of_int heartRate / 60) / 0.1 * pi) * (0.8 + activityLevel * 0.4)) \<and>
         (0.3 < frac (t * of_int heartRate / 60) \<and> frac (t * of_int heartRate / 60) < 0.6 \<longrightarrow>
            amplitude_before_noise heartRate activityLevel t =
              sin ((frac (t * of_int heartRate / 60) - 0.3) / 0.3 * pi) * 0.3) \<and>
         (\<not> frac (t * of_int heartRate / 60) < 0.1 \<and>
          \<not> (0.3 < frac (t * of_int heartRate / 60) \<and> frac (t * of_int heartRate / 60) < 0.6) \<longrightarrow>
            amplitude_before_noise heartRate activityLevel t = 0)"
  using beat_phase_frac [OF assms]
  by (simp add: amplitude_of_phase)

theorem amplitude_before_noise_piecewise_witness:
  "(0::real) \<le> 1/2 \<and> (0::int) \<le> 60 \<and>
   amplitude_before_noise 60 1 (1/2) = sin ((1/2 - 0.3) / 0.3 * pi) * 0.3"
  using amplitude_before_noise_piecewise [of "1/2" 60 1]
  by (simp add: frac_eq)

declare preview_loop.simps [simp del]

lemma amplitude_without_stress:
  "amplitude_with_noise heartRate 0 activityLevel t random =
   amplitude_before_noise heartRate activityLevel t"
  by (simp add: amplitude_with_noise_def)

lemma preview_loop_without_stress:
  "fst (preview_loop cv heartRate 0 activityLevel i rng path) =
   path @ map (\<lambda>j. (if j = 0 then MoveTo else LineTo) (real j)
                   (real (height cv) / 2 -
                    amplitude_before_noise heartRate activityLevel
                      (real j / real (width cv) * 3) * (real (height cv) * 0.3)))
            [i..<width cv]"
proof (induction "width cv - i" arbitrary: i rng path)
  case 0
  then have "\<not> i < width cv" by simp
  then show ?case by (subst preview_loop.simps) simp
next
  case (Suc n)
  then have less: "i < width cv" and n: "n = width cv - Suc i" by simp_all
  from less have upt: "[i..<width cv] = i # [Suc i..<width cv]"
    by (simp add: upt_conv_Cons)
  from less show ?case
    by (subst preview_loop.simps)
       (simp add: Math_random_def Let_def amplitude_without_stress Suc.hyps(1) [OF n] upt)
qed

text \<open>
  Claim C4. With a stress level of 0 the noise term vanishes: the amplitude does not
  depend on the value \<open>Math.random\<close> returned, two runs of the preview with the same
  parameters draw the same path whatever the two random streams are, and that path is a
  function of the canvas, the heart rate and the activity level alone.
\<close>

theorem preview_deterministic_without_stress:
  "amplitude_with_noise heartRate 0 activityLevel t random =
     amplitude_with_noise heartRate 0 activityLevel t random' \<and>
   fst (generateHeartbeatPreview cv (doc\<lparr>stress_level_value := 0\<rparr>) rng) =
     fst (generateHeartbeatPreview cv (doc\<lparr>stress_level_value := 0\<rparr>) rng') \<and>
   fst (generateHeartbeatPreview cv (doc\<lparr>stress_level_value := 0\<rparr>) rng) =
     map (\<lambda>j. (if j = 0 then MoveTo else LineTo) (real j)
               (real (height cv) / 2 -
                amplitude_before_noise (heart_rate_value doc) (activity_level_value doc)
                  (real j / real (width cv) * 3) * (real (height cv) * 0.3)))
         [0..<width cv]"
  by (simp add: amplitude_without_stress generateHeartbeatPreview_def
        preview_loop_without_stress)

theorem preview_deterministic_without_stress_witness:
  "fst (generateHeartbeatPreview \<lparr>width = 2, height = 100\<rparr>
         \<lparr>heart_rate_value = 60, stress_level_value = 0, activity_level_value = 0.5,
          emotion_value = ''calm'', duration_value = 10, radius_value = 30,
          thickness_value = 3, height_variation_value = 2, pattern_intensity_value = 1,
          smoothness_value = 0.5\<rparr> (sconst 0.1)) =
   fst (generateHeartbeatPreview \<lparr>width = 2, height = 100\<rparr>
         \<lparr>heart_rate_value = 60, stress_level_value = 0, activity_level_value = 0.5,
          emotion_value = ''calm'', duration_value = 10, radius_value = 30,
          thickness_value = 3, height_variation_value = 2, pattern_intensity_value = 1,
          smoothness_value = 0.5\<rparr> (sconst 0.9))"
  using preview_deterministic_without_stress
    [where cv = "\<lparr>width = 2, height = 100\<rparr>" and rng = "sconst 0.1"
       and rng' = "sconst 0.9" and heartRate = 60 and activityLevel = "0.5" and t = 0
       and random = 0 and random' = 0 and doc =
        "\<lparr>heart_rate_value = 60, stress_level_value = 0, activity_level_value = 0.5,
          emotion_value = ''calm'', duration_value = 10, radius_value = 30,
          thickness_value = 3, height_variation_value = 2, pattern_intensity_value = 1,
          smoothness_value = 0.5\<rparr>"]
  by simp

section \<open>Properties of the specified synthesizer\<close>

text \<open>
  Claim C8. The synthesizer of the specification rejects a heart rate or a duration that
  is not positive with \<open>InvalidParameter\<close>, before any noise value is drawn; it fails in
  no other way and with no other error, and on valid parameters it returns
  \<open>duration * sample_rate\<close> samples.
\<close>

theorem WaveformSynthesizer_failures:
  "(heart_rate p \<le> 0 \<or> duration p \<le> 0 \<longrightarrow>
      WaveformSynthesizer sample_rate p rng = (Inl InvalidParameter, rng)) \<and>
   (\<forall>e. fst (WaveformSynthesizer sample_rate p rng) = Inl e \<longrightarrow>
      e = InvalidParameter \<and> (heart_rate p \<le> 0 \<or> duration p \<le> 0)) \<and>
   (0 < heart_rate p \<and> 0 < duration p \<longrightarrow>
      (\<exists>samples. fst (WaveformSynthesizer sample_rate p rng) = Inr samples \<and>
         length samples = nat (duration p) * sample_rate))"
  by (auto simp: WaveformSynthesizer_def Let_def)

theorem WaveformSynthesizer_failures_witness:
  "WaveformSynthesizer 50
     \<lparr>heart_rate = 0, stress_level = 0.3, activity_level = 0.5, emotion = ''calm'',
      duration = 10\<rparr> (sconst 0.5) = (Inl InvalidParameter, sconst 0.5) \<and>
   (\<exists>samples. fst (WaveformSynthesizer 50
     \<lparr>heart_rate = 72, stress_level = 0.3, activity_level = 0.5, emotion = ''calm'',
      duration = 3\<rparr> (sconst 0.5)) = Inr samples \<and> length samples = 150)"
  using WaveformSynthesizer_failures
     [of "\<lparr>heart_rate = 0, stress_level = 0.3, activity_level = 0.5, emotion = ''calm'',
      duration = 10\<rparr>" 50 "sconst 0.5"]
    WaveformSynthesizer_failures
     [of "\<lparr>heart_rate = 72, stress_level = 0.3, activity_level = 0.5, emotion = ''calm'',
      duration = 3\<rparr>" 50 "sconst 0.5"]
  by simp

end
